theory Spec2Isabelle
  imports Main "HOL-Library.Sublist"
begin

section \<open>The must-gather plan tools of the core toolset\<close>

text \<open>
  A shallow embedding of \<^verbatim>\<open>pkg/toolsets/core/mustgather.go\<close> (the handler
  \<^verbatim>\<open>mustGatherPlan\<close> of the tool \<^verbatim>\<open>plan_mustgather\<close>) and of
  \<^verbatim>\<open>pkg/toolsets/core/must_gather_plan.go\<close> (the anonymous handler of the tool
  \<^verbatim>\<open>must_gather_plan\<close>).

  Go strings are byte strings: \<open>string\<close>. A handler returns
  \<^verbatim>\<open>(*api.ToolCallResult, error)\<close> or panics; the three ways out are the three
  constructors of \<open>outcome\<close>. Everything a handler reads from outside (the random
  source, \<^verbatim>\<open>time.ParseDuration\<close>, the namespace listing, the serializer of
  \<^verbatim>\<open>sigs.k8s.io/yaml\<close>) is a field of the record \<open>env\<close>, so every theorem
  holds for every behaviour of these collaborators.
\<close>

subsection \<open>The argument bag\<close>

text \<open>
  \<^verbatim>\<open>params.GetArguments()\<close> is a \<^verbatim>\<open>map[string]any\<close>. A value is modelled
  by its dynamic type as far as the handlers tell types apart: a string, a bool, a
  \<^verbatim>\<open>[]string\<close>, or anything else. A key that is absent or maps to nil is \<open>None\<close>.
\<close>

datatype val = VString string | VBool bool | VStrings "string list" | VOther

type_synonym arguments = "string \<Rightarrow> val option"

text \<open>
  The panics of the handlers: a failed type assertion \<^verbatim>\<open>args[key].(T)\<close> (tagged
  with the key), and an index out of range (index, then length).
\<close>

datatype panic = InterfaceConversion string | IndexOutOfRange nat nat

text \<open>
  Modelled from the spec: \<^verbatim>\<open>api.ToolCallResult\<close> and \<^verbatim>\<open>api.NewToolCallResult\<close>
  (package \<^verbatim>\<open>pkg/api\<close> is not among the sources). The spec calls it a tool-level
  result that carries the text or only an error message: the constructor packs its two
  arguments; \<open>None\<close> is the nil error and an error is its message.
\<close>

record ToolCallResult =
  Content :: string
  Error :: "string option"

definition NewToolCallResult :: "string \<Rightarrow> string option \<Rightarrow> ToolCallResult" where
  "NewToolCallResult content err = \<lparr>Content = content, Error = err\<rparr>"

text \<open>
  \<open>ToolResult r\<close> is \<^verbatim>\<open>return r, nil\<close>; \<open>GoError msg\<close> is
  \<^verbatim>\<open>return nil, err\<close>; \<open>Panic p\<close> is a run-time panic of the handler.
\<close>

datatype outcome = ToolResult ToolCallResult | GoError string | Panic panic

definition bindE :: "'e + 'a \<Rightarrow> ('a \<Rightarrow> 'e + 'b) \<Rightarrow> 'e + 'b" where
  "bindE m f = (case m of Inl e \<Rightarrow> Inl e | Inr x \<Rightarrow> f x)"

text \<open>
  \<^verbatim>\<open>if args[key] != nil { x = args[key].(string) }\<close>: \<open>Inr None\<close> when the key
  is absent, the asserted value when it has the asserted type, a panic otherwise.
\<close>

definition argString :: "arguments \<Rightarrow> string \<Rightarrow> outcome + string option" where
  "argString args key =
     (case args key of
        None \<Rightarrow> Inr None
      | Some (VString s) \<Rightarrow> Inr (Some s)
      | Some _ \<Rightarrow> Inl (Panic (InterfaceConversion key)))"

definition argBool :: "arguments \<Rightarrow> string \<Rightarrow> outcome + bool option" where
  "argBool args key =
     (case args key of
        None \<Rightarrow> Inr None
      | Some (VBool b) \<Rightarrow> Inr (Some b)
      | Some _ \<Rightarrow> Inl (Panic (InterfaceConversion key)))"

definition argStrings :: "arguments \<Rightarrow> string \<Rightarrow> outcome + string list option" where
  "argStrings args key =
     (case args key of
        None \<Rightarrow> Inr None
      | Some (VStrings xs) \<Rightarrow> Inr (Some xs)
      | Some _ \<Rightarrow> Inl (Panic (InterfaceConversion key)))"

text \<open>
  \<^verbatim>\<open>x, _ := args[key].(string)\<close> of must_gather_plan.go: the comma-ok form never
  panics and yields the empty string for an absent key or another type.
\<close>

definition argStringOrEmpty :: "arguments \<Rightarrow> string \<Rightarrow> string" where
  "argStringOrEmpty args key = (case args key of Some (VString s) \<Rightarrow> s | _ \<Rightarrow> [])"

text \<open>
  The types the input schema of \<^verbatim>\<open>plan_mustgather\<close> declares for its eleven
  properties (\<^verbatim>\<open>InputSchema\<close> in \<^verbatim>\<open>initMustGatherPlan\<close>); an optional
  property may be absent.
\<close>

definition isStringArg :: "arguments \<Rightarrow> string \<Rightarrow> bool" where
  "isStringArg args key = (case args key of None \<Rightarrow> True | Some (VString s) \<Rightarrow> True | Some _ \<Rightarrow> False)"

definition isBoolArg :: "arguments \<Rightarrow> string \<Rightarrow> bool" where
  "isBoolArg args key = (case args key of None \<Rightarrow> True | Some (VBool b) \<Rightarrow> True | Some _ \<Rightarrow> False)"

definition isStringsArg :: "arguments \<Rightarrow> string \<Rightarrow> bool" where
  "isStringsArg args key = (case args key of None \<Rightarrow> True | Some (VStrings xs) \<Rightarrow> True | Some _ \<Rightarrow> False)"

definition conformsToInputSchema :: "arguments \<Rightarrow> bool" where
  "conformsToInputSchema args =
     (isStringArg args ''node_name'' \<and> isStringArg args ''node_selector'' \<and>
      isBoolArg args ''host_network'' \<and> isStringArg args ''gather_command'' \<and>
      isBoolArg args ''all_component_images'' \<and> isStringsArg args ''images'' \<and>
      isStringArg args ''source_dir'' \<and> isStringArg args ''timeout'' \<and>
      isStringArg args ''namespace'' \<and> isBoolArg args ''keep_namespace'' \<and>
      isStringArg args ''since'')"

subsection \<open>Resource descriptors\<close>

text \<open>
  The fields of the Kubernetes API types that the handlers set. A field a handler
  leaves out has Go's zero value: the empty string, \<open>False\<close>, the empty list, and
  \<open>None\<close> for a nil map.
\<close>

record metav1_TypeMeta =
  Kind :: string
  APIVersion :: string

record metav1_ObjectMeta =
  Name :: string
  GenerateName :: string
  Namespace :: string

record corev1_EnvVar =
  envName :: string
  envValue :: string

record corev1_VolumeMount =
  mountName :: string
  MountPath :: string

record corev1_Container =
  containerName :: string
  Image :: string
  ImagePullPolicy :: string
  Command :: "string list"
  Env :: "corev1_EnvVar list"
  VolumeMounts :: "corev1_VolumeMount list"

record corev1_Volume =
  volumeName :: string
  EmptyDir :: bool

record corev1_Toleration =
  Operator :: string

record corev1_PodSpec =
  ServiceAccountName :: string
  NodeName :: string
  PriorityClassName :: string
  RestartPolicy :: string
  Volumes :: "corev1_Volume list"
  Containers :: "corev1_Container list"
  HostNetwork :: bool
  NodeSelector :: "(string \<Rightarrow> string option) option"
  Tolerations :: "corev1_Toleration list"

record corev1_Pod =
  podTypeMeta :: metav1_TypeMeta
  podObjectMeta :: metav1_ObjectMeta
  Spec :: corev1_PodSpec

record corev1_Namespace =
  nsTypeMeta :: metav1_TypeMeta
  nsObjectMeta :: metav1_ObjectMeta

record corev1_ServiceAccount =
  saTypeMeta :: metav1_TypeMeta
  saObjectMeta :: metav1_ObjectMeta

record rbacv1_RoleRef =
  roleAPIGroup :: string
  roleKind :: string
  roleName :: string

record rbacv1_Subject =
  subjectKind :: string
  subjectName :: string
  subjectNamespace :: string

record rbacv1_ClusterRoleBinding =
  crbTypeMeta :: metav1_TypeMeta
  crbObjectMeta :: metav1_ObjectMeta
  RoleRef :: rbacv1_RoleRef
  Subjects :: "rbacv1_Subject list"

definition emptyTypeMeta :: metav1_TypeMeta where
  "emptyTypeMeta = \<lparr>Kind = [], APIVersion = []\<rparr>"

text \<open>The descriptor handed to \<^verbatim>\<open>yaml.Marshal\<close>, whose parameter is an interface.\<close>

datatype k8sObject =
    NamespaceObject corev1_Namespace
  | ServiceAccountObject corev1_ServiceAccount
  | ClusterRoleBindingObject rbacv1_ClusterRoleBinding
  | PodObject corev1_Pod

fun typeMetaOf :: "k8sObject \<Rightarrow> metav1_TypeMeta" where
  "typeMetaOf (NamespaceObject n) = nsTypeMeta n"
| "typeMetaOf (ServiceAccountObject s) = saTypeMeta s"
| "typeMetaOf (ClusterRoleBindingObject b) = crbTypeMeta b"
| "typeMetaOf (PodObject p) = podTypeMeta p"

text \<open>
  \<^verbatim>\<open>metav1.TypeMeta\<close> tags both of its fields \<^verbatim>\<open>omitempty\<close>
  (\<^verbatim>\<open>json:"kind,omitempty"\<close>, \<^verbatim>\<open>json:"apiVersion,omitempty"\<close>), and
  \<^verbatim>\<open>sigs.k8s.io/yaml\<close> serializes through these tags: an empty field gives no key.
  \<open>typeMetaFields\<close> lists the keys a serialized document gets from its TypeMeta.
\<close>

definition typeMetaFields :: "metav1_TypeMeta \<Rightarrow> (string \<times> string) list" where
  "typeMetaFields tm =
     (if APIVersion tm = [] then [] else [(''apiVersion'', APIVersion tm)]) @
     (if Kind tm = [] then [] else [(''kind'', Kind tm)])"

subsection \<open>Collaborators\<close>

text \<open>
  \<^item> \<open>randText k\<close>: what the \<open>k\<close>-th call of \<^verbatim>\<open>crypto/rand.Text()\<close> returns;
  \<^item> \<open>utilRandString n\<close>: what \<^verbatim>\<open>rand.String(n)\<close> of apimachinery returns;
  \<^item> \<open>parseDurationOk s\<close>: whether \<^verbatim>\<open>time.ParseDuration(s)\<close> returns a nil error;
  \<^item> \<open>namespacesList\<close>: the result of \<^verbatim>\<open>params.NamespacesList\<close>, an error message
    or the items of the list; an item is \<open>Inr name\<close>, or \<open>Inl msg\<close> when
    \<^verbatim>\<open>ToUnstructured\<close> fails on it;
  \<^item> \<open>yamlMarshal obj\<close>: the bytes \<^verbatim>\<open>yaml.Marshal(obj)\<close> returns, or its error message.
\<close>

record env =
  randText :: "nat \<Rightarrow> string"
  utilRandString :: "nat \<Rightarrow> string"
  parseDurationOk :: "string \<Rightarrow> bool"
  namespacesList :: "string + (string + string) list"
  yamlMarshal :: "k8sObject \<Rightarrow> string + string"

subsection \<open>String helpers of the Go standard library\<close>

text \<open>\<^verbatim>\<open>strings.ToLower\<close> on the bytes of an ASCII string.\<close>

definition toLower :: "char \<Rightarrow> char" where
  "toLower c =
     (if 65 \<le> (of_char c :: nat) \<and> (of_char c :: nat) \<le> 90
      then char_of ((of_char c :: nat) + 32) else c)"

text \<open>
  \<^verbatim>\<open>strings.Split(s, sep)\<close> for a separator of one byte: the fields between the
  separators, never an empty list. \<open>splitFrom sep cur s\<close> reads \<open>s\<close> with \<open>cur\<close> the
  field read so far.
\<close>

fun splitFrom :: "char \<Rightarrow> string \<Rightarrow> string \<Rightarrow> string list" where
  "splitFrom sep cur [] = [cur]"
| "splitFrom sep cur (c # cs) =
     (if c = sep then cur # splitFrom sep [] cs else splitFrom sep (cur @ [c]) cs)"

definition splitOn :: "char \<Rightarrow> string \<Rightarrow> string list" where
  "splitOn sep s = splitFrom sep [] s"

text \<open>
  \<^verbatim>\<open>strings.TrimSpace\<close> removes the leading and the trailing white space, where
  white space is what \<^verbatim>\<open>unicode.IsSpace\<close> accepts. \<open>spaceRunes\<close> lists these code
  points in their UTF-8 encoding: tab, line feed, vertical tab, form feed, carriage
  return, space, U+0085, U+00A0, U+1680, U+2000 to U+200A, U+2028, U+2029, U+202F,
  U+205F and U+3000. UTF-8 is prefix-free and a byte that does not decode is the rune
  U+FFFD, which is no space; so the first rune of a string is a space exactly when one
  of these encodings is a prefix of it, and the last rune exactly when one is a suffix.
  \<open>leadingWidth ws s\<close> is the length of the word of \<open>ws\<close> that \<open>s\<close> starts with (0
  when there is none), and \<open>trimPrefixes ws s\<close> drops such words from the front of \<open>s\<close>
  as long as one is there.
\<close>

definition spaceRunes :: "string list" where
  "spaceRunes =
     [[CHR 0x09], [CHR 0x0A], [CHR 0x0B], [CHR 0x0C], [CHR 0x0D], [CHR 0x20],
      [CHR 0xC2, CHR 0x85], [CHR 0xC2, CHR 0xA0],
      [CHR 0xE1, CHR 0x9A, CHR 0x80],
      [CHR 0xE2, CHR 0x80, CHR 0x80], [CHR 0xE2, CHR 0x80, CHR 0x81],
      [CHR 0xE2, CHR 0x80, CHR 0x82], [CHR 0xE2, CHR 0x80, CHR 0x83],
      [CHR 0xE2, CHR 0x80, CHR 0x84], [CHR 0xE2, CHR 0x80, CHR 0x85],
      [CHR 0xE2, CHR 0x80, CHR 0x86], [CHR 0xE2, CHR 0x80, CHR 0x87],
      [CHR 0xE2, CHR 0x80, CHR 0x88], [CHR 0xE2, CHR 0x80, CHR 0x89],
      [CHR 0xE2, CHR 0x80, CHR 0x8A],
      [CHR 0xE2, CHR 0x80, CHR 0xA8], [CHR 0xE2, CHR 0x80, CHR 0xA9],
      [CHR 0xE2, CHR 0x80, CHR 0xAF],
      [CHR 0xE2, CHR 0x81, CHR 0x9F],
      [CHR 0xE3, CHR 0x80, CHR 0x80]]"

definition leadingWidth :: "string list \<Rightarrow> string \<Rightarrow> nat" where
  "leadingWidth ws s =
     (case find (\<lambda>w. w \<noteq> [] \<and> prefix w s) ws of None \<Rightarrow> 0 | Some w \<Rightarrow> length w)"

function trimPrefixes :: "string list \<Rightarrow> string \<Rightarrow> string" where
  "trimPrefixes ws s =
     (if leadingWidth ws s = 0 then s else trimPrefixes ws (drop (leadingWidth ws s) s))"
  by pat_completeness auto
termination
proof (relation "measure (\<lambda>(ws, s). length s)", goal_cases)
  case 1
  show ?case by simp
next
  case (2 ws s)
  then obtain w where "find (\<lambda>w. w \<noteq> [] \<and> prefix w s) ws = Some w"
    and "leadingWidth ws s = length w"
    by (cases "find (\<lambda>w. w \<noteq> [] \<and> prefix w s) ws") (simp_all add: leadingWidth_def)
  then have "w \<noteq> []" and "prefix w s"
    by (auto simp: find_Some_iff)
  then obtain t where "s = w @ t"
    by (auto simp: prefix_def)
  with \<open>w \<noteq> []\<close> \<open>leadingWidth ws s = length w\<close> show ?case by simp
qed

declare trimPrefixes.simps [simp del]

definition TrimSpace :: "string \<Rightarrow> string" where
  "TrimSpace s = rev (trimPrefixes (map rev spaceRunes) (rev (trimPrefixes spaceRunes s)))"

text \<open>
  \<^verbatim>\<open>strings.SplitN(s, "=", 2)\<close>: one element when \<open>s\<close> has no \<open>=\<close>, otherwise the
  text before the first \<open>=\<close> and the text after it.
\<close>

definition SplitN2 :: "string \<Rightarrow> string list" where
  "SplitN2 s =
     (if CHR ''='' \<in> set s
      then [takeWhile (\<lambda>c. c \<noteq> CHR ''='') s, tl (dropWhile (\<lambda>c. c \<noteq> CHR ''='') s)]
      else [s])"

text \<open>
  \<^verbatim>\<open>path.Clean\<close>, as the standard library writes it: \<open>out\<close> is the output buffer
  (its length is \<^verbatim>\<open>out.w\<close>), the last argument is \<^verbatim>\<open>path[r:]\<close>. \<open>backtrack\<close>
  is the inner loop of the \<^verbatim>\<open>..\<close> case, run after \<^verbatim>\<open>out.w--\<close>. A rooted path
  starts with \<^verbatim>\<open>/\<close> in the buffer and \<^verbatim>\<open>r = 1\<close>.
\<close>

function backtrack :: "nat \<Rightarrow> string \<Rightarrow> nat \<Rightarrow> nat" where
  "backtrack dotdot out w =
     (if w > dotdot \<and> out ! w \<noteq> CHR ''/'' then backtrack dotdot out (w - 1) else w)"
  by pat_completeness auto
termination
  by (relation "measure (\<lambda>(dotdot, out, w). w)") auto

declare backtrack.simps [simp del]

function cleanLoop :: "bool \<Rightarrow> nat \<Rightarrow> string \<Rightarrow> string \<Rightarrow> string" where
  "cleanLoop rooted dotdot out [] = out"
| "cleanLoop rooted dotdot out (c # rest) =
     (if c = CHR ''/'' then cleanLoop rooted dotdot out rest
      else if c = CHR ''.'' \<and> (rest = [] \<or> hd rest = CHR ''/'') then
        cleanLoop rooted dotdot out rest
      else if c = CHR ''.'' \<and> hd rest = CHR ''.'' \<and> (tl rest = [] \<or> hd (tl rest) = CHR ''/'') then
        (if length out > dotdot then
           cleanLoop rooted dotdot (take (backtrack dotdot out (length out - 1)) out) (tl rest)
         else if \<not> rooted then
           cleanLoop rooted (length ((if out \<noteq> [] then out @ ''/'' else out) @ ''..''))
             ((if out \<noteq> [] then out @ ''/'' else out) @ ''..'') (tl rest)
         else cleanLoop rooted dotdot out (tl rest))
      else
        cleanLoop rooted dotdot
          ((if (rooted \<and> length out \<noteq> 1) \<or> (\<not> rooted \<and> length out \<noteq> 0) then out @ ''/'' else out)
             @ takeWhile (\<lambda>x. x \<noteq> CHR ''/'') (c # rest))
          (dropWhile (\<lambda>x. x \<noteq> CHR ''/'') (c # rest)))"
  by pat_completeness auto
termination
proof (relation "measure (\<lambda>(rooted, dotdot, out, s). length s)", goal_cases)
  case 1
  show ?case by simp
next
  case (2 rooted dotdot out c rest)
  show ?case by simp
next
  case (3 rooted dotdot out c rest)
  show ?case by simp
next
  case (4 rooted dotdot out c rest)
  show ?case by simp
next
  case (5 rooted dotdot out c rest)
  show ?case by simp
next
  case (6 rooted dotdot out c rest)
  show ?case by simp
next
  case (7 rooted dotdot out c rest)
  have "length (dropWhile (\<lambda>x. x \<noteq> CHR ''/'') rest) \<le> length rest"
    by (rule length_dropWhile_le)
  with 7(1) show ?case by simp
qed

declare cleanLoop.simps [simp del]

definition pathClean :: "string \<Rightarrow> string" where
  "pathClean p =
     (if p = [] then ''.''
      else
        (let rooted = (hd p = CHR ''/'');
             out = cleanLoop rooted (if rooted then 1 else 0) (if rooted then ''/'' else [])
                     (if rooted then tl p else p)
         in if out = [] then ''.'' else out))"

subsection \<open>mustgather.go: constants and helpers\<close>

definition defaultGatherSourceDir :: string where
  "defaultGatherSourceDir = ''/must-gather/''"

definition defaultMustGatherImage :: string where
  "defaultMustGatherImage = ''registry.redhat.io/openshift4/ose-must-gather:latest''"

definition defaultGatherCmd :: string where
  "defaultGatherCmd = ''/usr/bin/gather''"

text \<open>
  \<^verbatim>\<open>generateRandomString(length)\<close>: \<open>k\<close> counts the calls of \<^verbatim>\<open>rand.Text()\<close>
  made so far. When the text is too short the function calls itself for the missing
  length. \<^verbatim>\<open>rand.Text()\<close> returns 26 characters; for an empty text, where the Go
  function would recurse without end, the model stops with what it has.
\<close>

function generateRandomString :: "(nat \<Rightarrow> string) \<Rightarrow> nat \<Rightarrow> nat \<Rightarrow> string" where
  "generateRandomString texts k n =
     (if n > length (texts k) \<and> texts k \<noteq> []
      then take n (map toLower (texts k)
             @ generateRandomString texts (Suc k) (n - length (texts k)))
      else take n (map toLower (texts k)))"
  by pat_completeness auto
termination
  by (relation "measure (\<lambda>(texts, k, n). n)") auto

declare generateRandomString.simps [simp del]

text \<open>
  \<^verbatim>\<open>parseNodeSelector\<close>: the pairs are read left to right, a later pair with the
  same key overwrites an earlier one, a pair without \<open>=\<close> is skipped.
\<close>

definition parseNodeSelector :: "string \<Rightarrow> (string \<Rightarrow> string option)" where
  "parseNodeSelector selector =
     foldl (\<lambda>result pair.
              (let kv = SplitN2 (TrimSpace pair)
               in if length kv = 2
                  then result(TrimSpace (kv ! 0) \<mapsto> TrimSpace (kv ! 1))
                  else result))
       Map.empty (splitOn (CHR '','') selector)"

subsection \<open>mustgather.go: resolving the arguments (lines 110 to 174)\<close>

text \<open>The local variables of \<^verbatim>\<open>mustGatherPlan\<close> once the arguments are read.\<close>

record PlanConfig =
  nodeName :: string
  nodeSelector :: "(string \<Rightarrow> string option) option"
  hostNetwork :: bool
  sourceDir :: string
  namespace :: string
  keepNamespace :: bool
  gatherCmd :: string
  allImages :: bool
  images :: "string list"
  timeout :: string
  since :: string

definition invalidTimeout :: outcome where
  "invalidTimeout = ToolResult (NewToolCallResult [] (Some ''timeout duration is not valid''))"

definition invalidSince :: outcome where
  "invalidSince = ToolResult (NewToolCallResult [] (Some ''since duration is not valid''))"

text \<open>
  The arguments are read in the order of the source, so the first failing type
  assertion is the panic, and the timeout is checked before the since duration.
  \<open>Inl\<close> is a way out of the handler before any descriptor is built.
\<close>

definition resolveArgs :: "env \<Rightarrow> arguments \<Rightarrow> outcome + PlanConfig" where
  "resolveArgs e args =
     bindE (argString args ''node_name'') (\<lambda>nodeNameArg.
     bindE (argString args ''node_selector'') (\<lambda>nodeSelectorArg.
     bindE (argBool args ''host_network'') (\<lambda>hostNetworkArg.
     bindE (argString args ''source_dir'') (\<lambda>sourceDirArg.
     bindE (argString args ''namespace'') (\<lambda>namespaceArg.
     bindE (argBool args ''keep_namespace'') (\<lambda>keepNamespaceArg.
     bindE (argString args ''gather_command'') (\<lambda>gatherCommandArg.
     bindE (argBool args ''all_component_images'') (\<lambda>allImagesArg.
     bindE (argStrings args ''images'') (\<lambda>imagesArg.
     bindE (argString args ''timeout'') (\<lambda>timeoutArg.
     bindE (case timeoutArg of
              None \<Rightarrow> Inr (case gatherCommandArg of None \<Rightarrow> defaultGatherCmd | Some g \<Rightarrow> g)
            | Some t \<Rightarrow>
                if parseDurationOk e t
                then Inr (''/usr/bin/timeout '' @ t @ '' '' @
                          (case gatherCommandArg of None \<Rightarrow> defaultGatherCmd | Some g \<Rightarrow> g))
                else Inl invalidTimeout) (\<lambda>gatherCmdV.
     bindE (argString args ''since'') (\<lambda>sinceArg.
     bindE (case sinceArg of
              None \<Rightarrow> Inr []
            | Some s \<Rightarrow> if parseDurationOk e s then Inr s else Inl invalidSince) (\<lambda>sinceV.
     Inr \<lparr>nodeName = (case nodeNameArg of None \<Rightarrow> [] | Some n \<Rightarrow> n),
          nodeSelector = map_option parseNodeSelector nodeSelectorArg,
          hostNetwork = (case hostNetworkArg of None \<Rightarrow> False | Some b \<Rightarrow> b),
          sourceDir = (case sourceDirArg of None \<Rightarrow> defaultGatherSourceDir | Some d \<Rightarrow> pathClean d),
          namespace = (case namespaceArg of
                         None \<Rightarrow> ''openshift-must-gather-'' @ generateRandomString (randText e) 0 6
                       | Some n \<Rightarrow> n),
          keepNamespace = (case keepNamespaceArg of None \<Rightarrow> False | Some b \<Rightarrow> b),
          gatherCmd = gatherCmdV,
          allImages = (case allImagesArg of None \<Rightarrow> False | Some b \<Rightarrow> b),
          images = (case imagesArg of None \<Rightarrow> [] | Some xs \<Rightarrow> xs),
          timeout = (case timeoutArg of None \<Rightarrow> [] | Some t \<Rightarrow> t),
          since = sinceV\<rparr>)))))))))))))"

subsection \<open>mustgather.go: the gather containers and the pod (lines 176 to 252)\<close>

definition envVars :: "PlanConfig \<Rightarrow> corev1_EnvVar list" where
  "envVars cfg =
     (if since cfg \<noteq> [] then [\<lparr>envName = ''MUST_GATHER_SINCE'', envValue = since cfg\<rparr>] else [])"

definition gatherContainerTemplate :: "PlanConfig \<Rightarrow> corev1_Container" where
  "gatherContainerTemplate cfg =
     \<lparr>containerName = ''gather'',
      Image = defaultMustGatherImage,
      ImagePullPolicy = ''IfNotPresent'',
      Command = [gatherCmd cfg],
      Env = envVars cfg,
      VolumeMounts = [\<lparr>mountName = ''must-gather-collection'', MountPath = sourceDir cfg\<rparr>]\<rparr>"

text \<open>The zero value of \<^verbatim>\<open>corev1.Container\<close>, which \<^verbatim>\<open>make\<close> fills the slice with.\<close>

definition zeroContainer :: corev1_Container where
  "zeroContainer =
     \<lparr>containerName = [], Image = [], ImagePullPolicy = [], Command = [], Env = [],
      VolumeMounts = []\<rparr>"

text \<open>
  \<^verbatim>\<open>for i, image := range images\<close> (\<open>img\<close> is the loop's \<^verbatim>\<open>image\<close>): the slice
  \<open>cs\<close> keeps its length, and the assignment \<^verbatim>\<open>gatherContainers[i] = ...\<close> panics
  when \<open>i\<close> is not below it. The two statements of the body (store a copy of the
  template, then set its image) are one update.
\<close>

fun gatherLoop ::
  "corev1_Container \<Rightarrow> nat \<Rightarrow> string list \<Rightarrow> corev1_Container list \<Rightarrow> panic + corev1_Container list"
where
  "gatherLoop tmpl i [] cs = Inr cs"
| "gatherLoop tmpl i (img # rest) cs =
     (if i < length cs
      then gatherLoop tmpl (Suc i) rest (cs[i := tmpl\<lparr>Image := img\<rparr>])
      else Inl (IndexOutOfRange i (length cs)))"

definition gatherContainers :: "PlanConfig \<Rightarrow> panic + corev1_Container list" where
  "gatherContainers cfg =
     gatherLoop (gatherContainerTemplate cfg) 0 (images cfg)
       ((replicate 1 zeroContainer)[0 := gatherContainerTemplate cfg])"

definition serviceAccountName :: string where
  "serviceAccountName = ''must-gather-collector''"

definition waitContainer :: corev1_Container where
  "waitContainer =
     \<lparr>containerName = ''wait'',
      Image = ''registry.redhat.io/ubi9/ubi-minimal'',
      ImagePullPolicy = ''IfNotPresent'',
      Command = [''/bin/bash'', ''-c'', ''sleep infinity''],
      Env = [],
      VolumeMounts = [\<lparr>mountName = ''must-gather-collection'', MountPath = ''/must-gather''\<rparr>]\<rparr>"

definition pod :: "PlanConfig \<Rightarrow> corev1_Container list \<Rightarrow> corev1_Pod" where
  "pod cfg gathers =
     \<lparr>podTypeMeta = emptyTypeMeta,
      podObjectMeta = \<lparr>Name = [], GenerateName = ''must-gather-'', Namespace = namespace cfg\<rparr>,
      Spec =
        \<lparr>ServiceAccountName = serviceAccountName,
         NodeName = nodeName cfg,
         PriorityClassName = ''system-cluster-critical'',
         RestartPolicy = ''Never'',
         Volumes = [\<lparr>volumeName = ''must-gather-collection'', EmptyDir = True\<rparr>],
         Containers = gathers @ [waitContainer],
         HostNetwork = hostNetwork cfg,
         NodeSelector = nodeSelector cfg,
         Tolerations = [\<lparr>Operator = ''Exists''\<rparr>]\<rparr>\<rparr>"

subsection \<open>mustgather.go: the namespace check and the other descriptors (lines 254 to 323)\<close>

text \<open>
  The callback of \<^verbatim>\<open>nsList.EachListItem\<close>, run over the items in order with the
  flag \<^verbatim>\<open>namespaceExists\<close> as state; the first error of the callback ends the walk.
  Once the flag is set an item is not converted any more.
\<close>

fun namespaceExists :: "string \<Rightarrow> bool \<Rightarrow> (string + string) list \<Rightarrow> string + bool" where
  "namespaceExists ns found [] = Inr found"
| "namespaceExists ns found (obj # objs) =
     (if \<not> found then
        (case obj of
           Inl err \<Rightarrow> Inl err
         | Inr name \<Rightarrow> namespaceExists ns (if name = ns then True else found) objs)
      else namespaceExists ns found objs)"

definition namespaceObj :: "string \<Rightarrow> bool \<Rightarrow> corev1_Namespace option" where
  "namespaceObj ns found =
     (if \<not> found
      then Some \<lparr>nsTypeMeta = \<lparr>Kind = ''Namespace'', APIVersion = ''v1''\<rparr>,
                 nsObjectMeta = \<lparr>Name = ns, GenerateName = [], Namespace = []\<rparr>\<rparr>
      else None)"

definition serviceAccount :: "string \<Rightarrow> corev1_ServiceAccount" where
  "serviceAccount ns =
     \<lparr>saTypeMeta = \<lparr>Kind = ''ServiceAccount'', APIVersion = ''v1''\<rparr>,
      saObjectMeta = \<lparr>Name = serviceAccountName, GenerateName = [], Namespace = ns\<rparr>\<rparr>"

definition clusterRoleBindingName :: "string \<Rightarrow> string" where
  "clusterRoleBindingName ns = ''must-gather-collector-'' @ ns"

definition clusterRoleBinding :: "string \<Rightarrow> rbacv1_ClusterRoleBinding" where
  "clusterRoleBinding ns =
     \<lparr>crbTypeMeta = \<lparr>Kind = ''ClusterRoleBinding'', APIVersion = ''rbac.authorization.k8s.io/v1''\<rparr>,
      crbObjectMeta = \<lparr>Name = clusterRoleBindingName ns, GenerateName = [], Namespace = []\<rparr>,
      RoleRef = \<lparr>roleAPIGroup = ''rbac.authorization.k8s.io'', roleKind = ''ClusterRole'',
                 roleName = ''cluster-admin''\<rparr>,
      Subjects = [\<lparr>subjectKind = ''ServiceAccount'', subjectName = serviceAccountName,
                   subjectNamespace = ns\<rparr>]\<rparr>"

subsection \<open>mustgather.go: rendering (lines 325 to 369)\<close>

text \<open>The comment lines and the opening fence: what the builder holds after line 337.\<close>

definition planComments :: "string \<Rightarrow> bool \<Rightarrow> string" where
  "planComments ns keep =
     ''# Save the following content to a file (e.g., must-gather-plan.yaml) and apply it with 'kubectl apply -f must-gather-plan.yaml'\<newline>'' @
     ''# Monitor the pod's logs to see when the must-gather process is complete:\<newline>'' @
     ''# kubectl logs -f -n '' @ ns @ '' <pod-name> -c gather\<newline>'' @
     ''# Once the logs indicate completion, copy the results with:\<newline>'' @
     ''# kubectl cp -n '' @ ns @ '' <pod-name>:/must-gather ./must-gather-output -c wait\<newline>'' @
     (if \<not> keep then
        ''# Finally, clean up the resources with:\<newline>'' @
        ''# kubectl delete ns '' @ ns @ ''\<newline>'' @
        ''# kubectl delete clusterrolebinding '' @ clusterRoleBindingName ns @ ''\<newline>''
      else []) @
     ''\<newline>'' @
     ''```yaml''"

text \<open>
  Lines 339 to 369: each descriptor is serialized in turn, a failure returns at once
  with a Go error, and the bytes are appended to the builder \<open>result\<close>. The pointer
  \<^verbatim>\<open>namespaceObj\<close> is set exactly when \<^verbatim>\<open>namespaceExists\<close> is false, so the test of
  line 339 is the test for \<open>Some\<close>.
\<close>

definition renderPlan ::
  "(k8sObject \<Rightarrow> string + string) \<Rightarrow> string \<Rightarrow> corev1_Namespace option \<Rightarrow>
   corev1_ServiceAccount \<Rightarrow> rbacv1_ClusterRoleBinding \<Rightarrow> corev1_Pod \<Rightarrow> outcome"
where
  "renderPlan marshal result0 nsObj sa crb p =
     (case (case nsObj of
              None \<Rightarrow> Inr result0
            | Some n \<Rightarrow>
                (case marshal (NamespaceObject n) of
                   Inl err \<Rightarrow> Inl (''failed to marshal namespace to yaml: '' @ err)
                 | Inr namespaceYaml \<Rightarrow> Inr (result0 @ ''---\<newline>'' @ namespaceYaml))) of
        Inl err \<Rightarrow> GoError err
      | Inr result1 \<Rightarrow>
          (case marshal (ServiceAccountObject sa) of
             Inl err \<Rightarrow> GoError (''failed to marshal service account to yaml: '' @ err)
           | Inr serviceAccountYaml \<Rightarrow>
               (case marshal (ClusterRoleBindingObject crb) of
                  Inl err \<Rightarrow> GoError (''failed to marshal cluster role binding to yaml: '' @ err)
                | Inr clusterRoleBindingYaml \<Rightarrow>
                    (case marshal (PodObject p) of
                       Inl err \<Rightarrow> GoError (''failed to marshal pod to yaml: '' @ err)
                     | Inr podYaml \<Rightarrow>
                         ToolResult (NewToolCallResult
                           (result1 @ ''---\<newline>'' @ serviceAccountYaml
                              @ ''---\<newline>'' @ clusterRoleBindingYaml
                              @ podYaml @ ''```'') None)))))"

subsection \<open>mustgather.go: the handler\<close>

text \<open>
  The stages in the order of the source. The block for \<^verbatim>\<open>all_component_images\<close>
  (lines 205 to 210) only reads the flag and has no effect.
\<close>

definition mustGatherPlan :: "env \<Rightarrow> arguments \<Rightarrow> outcome" where
  "mustGatherPlan e args =
     (case resolveArgs e args of
        Inl out \<Rightarrow> out
      | Inr cfg \<Rightarrow>
          (case gatherContainers cfg of
             Inl p \<Rightarrow> Panic p
           | Inr gathers \<Rightarrow>
               (case namespacesList e of
                  Inl err \<Rightarrow>
                    ToolResult (NewToolCallResult [] (Some (''failed to list namespaces: '' @ err)))
                | Inr items \<Rightarrow>
                    (case namespaceExists (namespace cfg) False items of
                       Inl err \<Rightarrow>
                         ToolResult (NewToolCallResult []
                           (Some (''failed to check namespaces list: '' @ err)))
                     | Inr found \<Rightarrow>
                         renderPlan (yamlMarshal e)
                           (planComments (namespace cfg) (keepNamespace cfg))
                           (namespaceObj (namespace cfg) found)
                           (serviceAccount (namespace cfg))
                           (clusterRoleBinding (namespace cfg))
                           (pod cfg gathers)))))"


subsection \<open>must_gather_plan.go: the handler of the tool must_gather_plan\<close>

definition imageStreamNotSupported :: string where
  "imageStreamNotSupported =
     ''the --image-stream parameter is not yet supported. Please use the --image parameter''"

definition planNamespaceName :: "env \<Rightarrow> string" where
  "planNamespaceName e = ''openshift-must-gather-'' @ utilRandString e 5"

definition planPodName :: "env \<Rightarrow> string" where
  "planPodName e = ''must-gather-'' @ utilRandString e 5"

definition planServiceAccountName :: string where
  "planServiceAccountName = ''must-gather-admin''"

definition planClusterRoleBindingName :: "env \<Rightarrow> string" where
  "planClusterRoleBindingName e = planNamespaceName e @ ''-'' @ planServiceAccountName"

definition planNamespace :: "env \<Rightarrow> corev1_Namespace" where
  "planNamespace e =
     \<lparr>nsTypeMeta = \<lparr>Kind = ''Namespace'', APIVersion = ''v1''\<rparr>,
      nsObjectMeta = \<lparr>Name = planNamespaceName e, GenerateName = [], Namespace = []\<rparr>\<rparr>"

definition planServiceAccount :: "env \<Rightarrow> corev1_ServiceAccount" where
  "planServiceAccount e =
     \<lparr>saTypeMeta = \<lparr>Kind = ''ServiceAccount'', APIVersion = ''v1''\<rparr>,
      saObjectMeta = \<lparr>Name = planServiceAccountName, GenerateName = [],
                      Namespace = planNamespaceName e\<rparr>\<rparr>"

definition planClusterRoleBinding :: "env \<Rightarrow> rbacv1_ClusterRoleBinding" where
  "planClusterRoleBinding e =
     \<lparr>crbTypeMeta = \<lparr>Kind = ''ClusterRoleBinding'', APIVersion = ''rbac.authorization.k8s.io/v1''\<rparr>,
      crbObjectMeta = \<lparr>Name = planClusterRoleBindingName e, GenerateName = [], Namespace = []\<rparr>,
      RoleRef = \<lparr>roleAPIGroup = ''rbac.authorization.k8s.io'', roleKind = ''ClusterRole'',
                 roleName = ''cluster-admin''\<rparr>,
      Subjects = [\<lparr>subjectKind = ''ServiceAccount'', subjectName = planServiceAccountName,
                   subjectNamespace = planNamespaceName e\<rparr>]\<rparr>"

definition planPod :: "env \<Rightarrow> string \<Rightarrow> string \<Rightarrow> corev1_Pod" where
  "planPod e img node =
     \<lparr>podTypeMeta = \<lparr>Kind = ''Pod'', APIVersion = ''v1''\<rparr>,
      podObjectMeta = \<lparr>Name = planPodName e, GenerateName = [], Namespace = planNamespaceName e\<rparr>,
      Spec =
        \<lparr>ServiceAccountName = planServiceAccountName,
         NodeName = node,
         PriorityClassName = [],
         RestartPolicy = ''Never'',
         Volumes = [\<lparr>volumeName = ''must-gather-output'', EmptyDir = True\<rparr>],
         Containers =
           [\<lparr>containerName = ''must-gather'',
             Image = img,
             ImagePullPolicy = [],
             Command = [''/bin/sh'', ''-c'', ''/usr/bin/gather && sleep infinity''],
             Env = [],
             VolumeMounts = [\<lparr>mountName = ''must-gather-output'', MountPath = ''/must-gather''\<rparr>]\<rparr>],
         HostNetwork = False,
         NodeSelector = None,
         Tolerations = []\<rparr>\<rparr>"

definition planText :: "env \<Rightarrow> string \<Rightarrow> string \<Rightarrow> string \<Rightarrow> string \<Rightarrow> string \<Rightarrow> string" where
  "planText e destDir namespaceYaml serviceAccountYaml clusterRoleBindingYaml podYaml =
     ''# Save the following content to a file (e.g., must-gather-plan.yaml) and apply it with 'kubectl apply -f must-gather-plan.yaml'\<newline>'' @
     ''# Monitor the pod's logs to see when the must-gather process is complete:\<newline>'' @
     ''# kubectl logs -f -n '' @ planNamespaceName e @ '' '' @ planPodName e @ ''\<newline>'' @
     ''# Once the logs indicate completion, copy the results with:\<newline>'' @
     ''# kubectl cp -n '' @ planNamespaceName e @ '' '' @ planPodName e @ '':/must-gather '' @ destDir @ ''\<newline>'' @
     ''# Finally, clean up the resources with:\<newline>'' @
     ''# kubectl delete ns '' @ planNamespaceName e @ ''\<newline>'' @
     ''# kubectl delete clusterrolebinding '' @ planClusterRoleBindingName e @ ''\<newline>'' @
     ''---\<newline>'' @ namespaceYaml @
     ''---\<newline>'' @ serviceAccountYaml @
     ''---\<newline>'' @ clusterRoleBindingYaml @
     ''---\<newline>'' @ podYaml"

text \<open>
  The handler: the four arguments are read with the comma-ok assertion, a non-empty
  \<^verbatim>\<open>image_stream\<close> returns at once (line 51), then the defaults, the names, the four
  descriptors, their serialization in the order of lines 152 to 167, and the text.
\<close>

definition must_gather_plan_Handler :: "env \<Rightarrow> arguments \<Rightarrow> outcome" where
  "must_gather_plan_Handler e args =
     (if argStringOrEmpty args ''image_stream'' \<noteq> [] then GoError imageStreamNotSupported
      else
        (case yamlMarshal e (NamespaceObject (planNamespace e)) of
           Inl err \<Rightarrow> GoError (''failed to marshal namespace to yaml: '' @ err)
         | Inr namespaceYaml \<Rightarrow>
        (case yamlMarshal e (ServiceAccountObject (planServiceAccount e)) of
           Inl err \<Rightarrow> GoError (''failed to marshal service account to yaml: '' @ err)
         | Inr serviceAccountYaml \<Rightarrow>
        (case yamlMarshal e (ClusterRoleBindingObject (planClusterRoleBinding e)) of
           Inl err \<Rightarrow> GoError (''failed to marshal cluster role binding to yaml: '' @ err)
         | Inr clusterRoleBindingYaml \<Rightarrow>
        (case yamlMarshal e (PodObject
                (planPod e
                   (if argStringOrEmpty args ''image'' = []
                    then ''registry.redhat.io/openshift4/ose-must-gather:latest''
                    else argStringOrEmpty args ''image'')
                   (argStringOrEmpty args ''node_name''))) of
           Inl err \<Rightarrow> GoError (''failed to marshal pod to yaml: '' @ err)
         | Inr podYaml \<Rightarrow>
             ToolResult (NewToolCallResult
               (planText e
                  (if argStringOrEmpty args ''dest_dir'' = [] then ''./must-gather-results''
                   else argStringOrEmpty args ''dest_dir'')
                  namespaceYaml serviceAccountYaml clusterRoleBindingYaml podYaml)
               None))))))"

subsection \<open>Observers and a sample environment\<close>

text \<open>
  What a caller sees of an outcome: whether it is an error (a Go error, or a tool
  result that carries one), and the text of a tool result. The comment lines of a
  text are its lines that start with \<open>#\<close>.
\<close>

definition yieldsError :: "outcome \<Rightarrow> bool" where
  "yieldsError out =
     (case out of GoError msg \<Rightarrow> True | ToolResult r \<Rightarrow> Error r \<noteq> None | Panic p \<Rightarrow> False)"

definition contentOf :: "outcome \<Rightarrow> string" where
  "contentOf out = (case out of ToolResult r \<Rightarrow> Content r | GoError msg \<Rightarrow> [] | Panic p \<Rightarrow> [])"

definition commentLines :: "string \<Rightarrow> string list" where
  "commentLines text = filter (\<lambda>l. take 1 l = ''#'') (splitOn (CHR 0x0A) text)"

text \<open>
  A concrete environment, used where a theorem is run on an input. Its serializer is
  a stand-in for \<^verbatim>\<open>sigs.k8s.io/yaml\<close>: it writes the keys of the TypeMeta as
  \<open>typeMetaFields\<close> lists them, then one line of metadata, then (for a binding) the
  subjects and (for a pod) one line per container with its name, image and mount
  paths. The random texts are constant, two durations parse, and the cluster has the
  namespaces \<open>default\<close> and \<open>kube-system\<close>.
\<close>

definition typeMetaLines :: "metav1_TypeMeta \<Rightarrow> string" where
  "typeMetaLines tm = concat (map (\<lambda>(k, v). k @ '': '' @ v @ ''\<newline>'') (typeMetaFields tm))"

definition objectMetaLine :: "metav1_ObjectMeta \<Rightarrow> string" where
  "objectMetaLine m = ''metadata: '' @ Namespace m @ ''/'' @ Name m @ GenerateName m @ ''\<newline>''"

definition containerLine :: "corev1_Container \<Rightarrow> string" where
  "containerLine c =
     ''- '' @ containerName c @ '' '' @ Image c @ '' '' @ concat (map MountPath (VolumeMounts c))
     @ ''\<newline>''"

fun sampleMarshal :: "k8sObject \<Rightarrow> string + string" where
  "sampleMarshal (NamespaceObject n) =
     Inr (typeMetaLines (nsTypeMeta n) @ objectMetaLine (nsObjectMeta n))"
| "sampleMarshal (ServiceAccountObject s) =
     Inr (typeMetaLines (saTypeMeta s) @ objectMetaLine (saObjectMeta s))"
| "sampleMarshal (ClusterRoleBindingObject b) =
     Inr (typeMetaLines (crbTypeMeta b) @ objectMetaLine (crbObjectMeta b) @
          ''subjects: ['' @ concat (map (\<lambda>s. subjectNamespace s @ ''/'' @ subjectName s) (Subjects b))
          @ '']\<newline>'')"
| "sampleMarshal (PodObject p) =
     Inr (typeMetaLines (podTypeMeta p) @ objectMetaLine (podObjectMeta p) @
          ''containers:\<newline>'' @ concat (map containerLine (Containers (Spec p))))"

definition sampleEnv :: env where
  "sampleEnv =
     \<lparr>randText = (\<lambda>k. ''ABCDEFGHIJKLMNOPQRSTUVWXYZ''),
      utilRandString = (\<lambda>n. take n ''x7k2q9w4m1''),
      parseDurationOk = (\<lambda>s. s = ''10m'' \<or> s = ''5s''),
      namespacesList = Inr [Inr ''default'', Inr ''kube-system''],
      yamlMarshal = sampleMarshal\<rparr>"


text \<open>
  The text \<open>mustGatherPlan\<close> returns in the sample environment when only
  \<^verbatim>\<open>keep_namespace\<close> is set: the generated namespace is new, so all four
  descriptors are written.
\<close>

definition samplePlanText :: string where
  "samplePlanText =
     ''# Save the following content to a file (e.g., must-gather-plan.yaml) and apply it with 'kubectl apply -f must-gather-plan.yaml'\<newline>'' @
     ''# Monitor the pod's logs to see when the must-gather process is complete:\<newline>'' @
     ''# kubectl logs -f -n openshift-must-gather-abcdef <pod-name> -c gather\<newline>'' @
     ''# Once the logs indicate completion, copy the results with:\<newline>'' @
     ''# kubectl cp -n openshift-must-gather-abcdef <pod-name>:/must-gather ./must-gather-output -c wait\<newline>'' @
     ''\<newline>'' @
     ''```yaml---\<newline>'' @
     ''apiVersion: v1\<newline>'' @
     ''kind: Namespace\<newline>'' @
     ''metadata: /openshift-must-gather-abcdef\<newline>'' @
     ''---\<newline>'' @
     ''apiVersion: v1\<newline>'' @
     ''kind: ServiceAccount\<newline>'' @
     ''metadata: openshift-must-gather-abcdef/must-gather-collector\<newline>'' @
     ''---\<newline>'' @
     ''apiVersion: rbac.authorization.k8s.io/v1\<newline>'' @
     ''kind: ClusterRoleBinding\<newline>'' @
     ''metadata: /must-gather-collector-openshift-must-gather-abcdef\<newline>'' @
     ''subjects: [openshift-must-gather-abcdef/must-gather-collector]\<newline>'' @
     ''metadata: openshift-must-gather-abcdef/must-gather-\<newline>'' @
     ''containers:\<newline>'' @
     ''- gather registry.redhat.io/openshift4/ose-must-gather:latest /must-gather/\<newline>'' @
     ''- wait registry.redhat.io/ubi9/ubi-minimal /must-gather\<newline>'' @
     ''```''"

section \<open>Properties\<close>

subsection \<open>Helper lemmas\<close>

lemma bindE_Inr [simp]: "bindE (Inr x) f = f x"
  by (simp add: bindE_def)

lemma bindE_Inl [simp]: "bindE (Inl x) f = Inl x"
  by (simp add: bindE_def)

lemma bindE_InrE:
  assumes "bindE m f = Inr y"
  obtains x where "m = Inr x" and "f x = Inr y"
  using assms by (cases m) simp_all

lemma gatherContainers_nil:
  "images cfg = [] \<Longrightarrow> gatherContainers cfg = Inr [gatherContainerTemplate cfg]"
  by (simp add: gatherContainers_def)

lemma gatherContainers_one:
  "images cfg = [a] \<Longrightarrow> gatherContainers cfg = Inr [(gatherContainerTemplate cfg)\<lparr>Image := a\<rparr>]"
  by (simp add: gatherContainers_def)

lemma gatherContainers_many:
  "images cfg = a # b # rest \<Longrightarrow> gatherContainers cfg = Inl (IndexOutOfRange 1 1)"
  by (simp add: gatherContainers_def)

lemma renderPlan_success:
  assumes "renderPlan m r0 nsObj sa crb p = ToolResult r" and "Error r = None"
  shows "\<exists>nsPart saY crbY podY.
           m (ServiceAccountObject sa) = Inr saY \<and>
           m (ClusterRoleBindingObject crb) = Inr crbY \<and>
           m (PodObject p) = Inr podY \<and>
           (case nsObj of
              None \<Rightarrow> nsPart = []
            | Some n \<Rightarrow> \<exists>nsY. m (NamespaceObject n) = Inr nsY \<and> nsPart = ''---\<newline>'' @ nsY) \<and>
           Content r = r0 @ nsPart @ ''---\<newline>'' @ saY @ ''---\<newline>'' @ crbY @ podY @ ''```''"
  using assms
  by (auto simp: renderPlan_def NewToolCallResult_def split: if_splits option.splits sum.splits)

lemma bindE_InlE:
  assumes "bindE m f = Inl e"
  obtains "m = Inl e" | x where "m = Inr x" and "f x = Inl e"
  using assms by (cases m) simp_all

lemma argString_Inl: "argString args key = Inl out \<Longrightarrow> out = Panic (InterfaceConversion key)"
  by (auto simp: argString_def split: option.splits val.splits)

lemma argBool_Inl: "argBool args key = Inl out \<Longrightarrow> out = Panic (InterfaceConversion key)"
  by (auto simp: argBool_def split: option.splits val.splits)

lemma argStrings_Inl: "argStrings args key = Inl out \<Longrightarrow> out = Panic (InterfaceConversion key)"
  by (auto simp: argStrings_def split: option.splits val.splits)

lemma resolveArgs_Inl:
  assumes "resolveArgs e args = Inl out"
  shows "out = invalidTimeout \<or> out = invalidSince \<or> (\<exists>key. out = Panic (InterfaceConversion key))"
  using assms unfolding resolveArgs_def
  by (elim bindE_InlE)
     (auto dest: argString_Inl argBool_Inl argStrings_Inl split: option.splits if_splits)

lemma mustGatherPlan_success:
  assumes "mustGatherPlan e args = ToolResult r" and "Error r = None"
  obtains cfg gathers items found where
    "resolveArgs e args = Inr cfg" and "gatherContainers cfg = Inr gathers" and
    "namespacesList e = Inr items" and "namespaceExists (namespace cfg) False items = Inr found" and
    "renderPlan (yamlMarshal e) (planComments (namespace cfg) (keepNamespace cfg))
       (namespaceObj (namespace cfg) found) (serviceAccount (namespace cfg))
       (clusterRoleBinding (namespace cfg)) (pod cfg gathers) = ToolResult r"
proof (cases "resolveArgs e args")
  case (Inl out)
  with assms(1) have "out = ToolResult r" by (simp add: mustGatherPlan_def)
  with resolveArgs_Inl[OF Inl] assms(2) show ?thesis
    by (auto simp: invalidTimeout_def invalidSince_def NewToolCallResult_def)
next
  case (Inr cfg)
  then show ?thesis using assms that
    by (auto simp: mustGatherPlan_def NewToolCallResult_def split: sum.splits)
qed


lemma resolveArgs_InrE:
  assumes "resolveArgs e args = Inr cfg"
  obtains nn nsel hn sd ns kn gc ai im tm g si sv where
    "argString args ''node_name'' = Inr nn" and
    "argString args ''node_selector'' = Inr nsel" and
    "argBool args ''host_network'' = Inr hn" and
    "argString args ''source_dir'' = Inr sd" and
    "argString args ''namespace'' = Inr ns" and
    "argBool args ''keep_namespace'' = Inr kn" and
    "argString args ''gather_command'' = Inr gc" and
    "argBool args ''all_component_images'' = Inr ai" and
    "argStrings args ''images'' = Inr im" and
    "argString args ''timeout'' = Inr tm" and
    "(case tm of
        None \<Rightarrow> Inr (case gc of None \<Rightarrow> defaultGatherCmd | Some g \<Rightarrow> g)
      | Some t \<Rightarrow>
          if parseDurationOk e t
          then Inr (''/usr/bin/timeout '' @ t @ '' '' @ (case gc of None \<Rightarrow> defaultGatherCmd | Some g \<Rightarrow> g))
          else Inl invalidTimeout) = Inr g" and
    "argString args ''since'' = Inr si" and
    "(case si of None \<Rightarrow> Inr [] | Some s \<Rightarrow> if parseDurationOk e s then Inr s else Inl invalidSince) = Inr sv" and
    "cfg = \<lparr>nodeName = (case nn of None \<Rightarrow> [] | Some n \<Rightarrow> n),
          nodeSelector = map_option parseNodeSelector nsel,
          hostNetwork = (case hn of None \<Rightarrow> False | Some b \<Rightarrow> b),
          sourceDir = (case sd of None \<Rightarrow> defaultGatherSourceDir | Some d \<Rightarrow> pathClean d),
          namespace = (case ns of
                         None \<Rightarrow> ''openshift-must-gather-'' @ generateRandomString (randText e) 0 6
                       | Some n \<Rightarrow> n),
          keepNamespace = (case kn of None \<Rightarrow> False | Some b \<Rightarrow> b),
          gatherCmd = g,
          allImages = (case ai of None \<Rightarrow> False | Some b \<Rightarrow> b),
          images = (case im of None \<Rightarrow> [] | Some xs \<Rightarrow> xs),
          timeout = (case tm of None \<Rightarrow> [] | Some t \<Rightarrow> t),
          since = sv\<rparr>"
  using assms unfolding resolveArgs_def
  apply (elim bindE_InrE)
  apply (rule that)
  apply assumption+
  apply simp
  done

lemma resolveArgs_InrD:
  assumes "resolveArgs e args = Inr cfg"
  shows "\<exists>sd. argString args ''source_dir'' = Inr sd \<and>
           sourceDir cfg = (case sd of None \<Rightarrow> defaultGatherSourceDir | Some d \<Rightarrow> pathClean d)"
    and "\<exists>ns. argString args ''namespace'' = Inr ns \<and>
           namespace cfg = (case ns of
                              None \<Rightarrow> ''openshift-must-gather-'' @ generateRandomString (randText e) 0 6
                            | Some n \<Rightarrow> n)"
    and "\<exists>im. argStrings args ''images'' = Inr im \<and>
           images cfg = (case im of None \<Rightarrow> [] | Some xs \<Rightarrow> xs)"
    and "\<exists>gc tm. argString args ''gather_command'' = Inr gc \<and>
           argString args ''timeout'' = Inr tm \<and>
           (case tm of
              None \<Rightarrow> Inr (case gc of None \<Rightarrow> defaultGatherCmd | Some g \<Rightarrow> g)
            | Some t \<Rightarrow>
                if parseDurationOk e t
                then Inr (''/usr/bin/timeout '' @ t @ '' '' @ (case gc of None \<Rightarrow> defaultGatherCmd | Some g \<Rightarrow> g))
                else Inl invalidTimeout) = Inr (gatherCmd cfg)"
    and "\<exists>si. argString args ''since'' = Inr si \<and>
           (case si of None \<Rightarrow> Inr [] | Some s \<Rightarrow> if parseDurationOk e s then Inr s else Inl invalidSince)
             = Inr (since cfg)"
  by (rule resolveArgs_InrE[OF assms], simp)+

lemma resolveArgs_sourceDir:
  assumes "resolveArgs e args = Inr cfg" and "args ''source_dir'' = Some (VString d)"
  shows "sourceDir cfg = pathClean d"
  using resolveArgs_InrD(1)[OF assms(1)] assms(2) by (auto simp: argString_def)

lemma resolveArgs_namespace:
  assumes "resolveArgs e args = Inr cfg" and "args ''namespace'' = Some (VString n)"
  shows "namespace cfg = n"
  using resolveArgs_InrD(2)[OF assms(1)] assms(2) by (auto simp: argString_def)

lemma resolveArgs_images_absent:
  assumes "resolveArgs e args = Inr cfg" and "args ''images'' = None"
  shows "images cfg = []"
  using resolveArgs_InrD(3)[OF assms(1)] assms(2) by (auto simp: argStrings_def)

lemma resolveArgs_images:
  assumes "resolveArgs e args = Inr cfg" and "args ''images'' = Some (VStrings xs)"
  shows "images cfg = xs"
  using resolveArgs_InrD(3)[OF assms(1)] assms(2) by (auto simp: argStrings_def)

lemma argString_Inr_cases:
  assumes "argString args key = Inr v"
  shows "(case args key of Some (VString g) \<Rightarrow> Some g | _ \<Rightarrow> None) = v"
  using assms by (auto simp: argString_def split: option.splits val.splits)

lemma resolveArgs_gatherCmd_timeout:
  assumes "resolveArgs e args = Inr cfg" and "args ''timeout'' = Some (VString t)"
  shows "parseDurationOk e t \<and>
         gatherCmd cfg = ''/usr/bin/timeout '' @ t @ '' '' @
           (case args ''gather_command'' of Some (VString g) \<Rightarrow> g | _ \<Rightarrow> defaultGatherCmd)"
proof -
  from resolveArgs_InrD(4)[OF assms(1)] obtain gc tm where
    gc: "argString args ''gather_command'' = Inr gc" and
    tm: "argString args ''timeout'' = Inr tm" and
    g: "(case tm of
              None \<Rightarrow> Inr (case gc of None \<Rightarrow> defaultGatherCmd | Some g \<Rightarrow> g)
            | Some t \<Rightarrow>
                if parseDurationOk e t
                then Inr (''/usr/bin/timeout '' @ t @ '' '' @ (case gc of None \<Rightarrow> defaultGatherCmd | Some g \<Rightarrow> g))
                else Inl invalidTimeout) = Inr (gatherCmd cfg)"
    by blast
  from tm assms(2) have tm': "tm = Some t" by (simp add: argString_def)
  have "(case gc of None \<Rightarrow> defaultGatherCmd | Some g \<Rightarrow> g) =
        (case args ''gather_command'' of Some (VString g) \<Rightarrow> g | _ \<Rightarrow> defaultGatherCmd)"
    using argString_Inr_cases[OF gc] by (auto split: option.splits val.splits)
  with g tm' show ?thesis by (auto split: if_splits)
qed

lemma resolveArgs_gatherCmd_no_timeout:
  assumes "resolveArgs e args = Inr cfg" and "args ''timeout'' = None"
  shows "gatherCmd cfg = (case args ''gather_command'' of Some (VString g) \<Rightarrow> g | _ \<Rightarrow> defaultGatherCmd)"
proof -
  from resolveArgs_InrD(4)[OF assms(1)] obtain gc tm where
    gc: "argString args ''gather_command'' = Inr gc" and
    tm: "argString args ''timeout'' = Inr tm" and
    g: "(case tm of
              None \<Rightarrow> Inr (case gc of None \<Rightarrow> defaultGatherCmd | Some g \<Rightarrow> g)
            | Some t \<Rightarrow>
                if parseDurationOk e t
                then Inr (''/usr/bin/timeout '' @ t @ '' '' @ (case gc of None \<Rightarrow> defaultGatherCmd | Some g \<Rightarrow> g))
                else Inl invalidTimeout) = Inr (gatherCmd cfg)"
    by blast
  from tm assms(2) have tm': "tm = None" by (simp add: argString_def)
  have "(case gc of None \<Rightarrow> defaultGatherCmd | Some g \<Rightarrow> g) =
        (case args ''gather_command'' of Some (VString g) \<Rightarrow> g | _ \<Rightarrow> defaultGatherCmd)"
    using argString_Inr_cases[OF gc] by (auto split: option.splits val.splits)
  with g tm' show ?thesis by simp
qed

lemma gatherContainers_Inr:
  assumes "gatherContainers cfg = Inr gathers"
  shows "length (images cfg) \<le> 1 \<and>
         gathers = [(gatherContainerTemplate cfg)
                      \<lparr>Image := (case images cfg of [] \<Rightarrow> defaultMustGatherImage | a # rest \<Rightarrow> a)\<rparr>]"
proof (cases "images cfg")
  case Nil
  with assms show ?thesis
    by (simp add: gatherContainers_nil gatherContainerTemplate_def)
next
  case (Cons a rest)
  show ?thesis
  proof (cases rest)
    case Nil
    with Cons assms show ?thesis by (simp add: gatherContainers_one)
  next
    case (Cons b rest')
    with \<open>images cfg = a # rest\<close> assms show ?thesis by (simp add: gatherContainers_many)
  qed
qed

lemma resolveArgs_ignores_image_stream:
  "resolveArgs e (args(''image_stream'' := v)) = resolveArgs e args"
  by (simp add: resolveArgs_def argString_def argBool_def argStrings_def)

lemma mustGatherPlan_ignores_image_stream:
  "mustGatherPlan e (args(''image_stream'' := v)) = mustGatherPlan e args"
  by (simp add: mustGatherPlan_def resolveArgs_ignores_image_stream)


lemma isStringArg_argString:
  "isStringArg args key \<Longrightarrow>
     argString args key = Inr (case args key of Some (VString s) \<Rightarrow> Some s | _ \<Rightarrow> None)"
  by (auto simp: isStringArg_def argString_def split: option.splits val.splits)

lemma isBoolArg_argBool:
  "isBoolArg args key \<Longrightarrow>
     argBool args key = Inr (case args key of Some (VBool b) \<Rightarrow> Some b | _ \<Rightarrow> None)"
  by (auto simp: isBoolArg_def argBool_def split: option.splits val.splits)

lemma isStringsArg_argStrings:
  "isStringsArg args key \<Longrightarrow>
     argStrings args key = Inr (case args key of Some (VStrings xs) \<Rightarrow> Some xs | _ \<Rightarrow> None)"
  by (auto simp: isStringsArg_def argStrings_def split: option.splits val.splits)

lemma resolveArgs_invalid_timeout:
  assumes "conformsToInputSchema args" and "args ''timeout'' = Some (VString t)"
    and "\<not> parseDurationOk e t"
  shows "resolveArgs e args = Inl invalidTimeout"
  using assms
  by (simp add: conformsToInputSchema_def resolveArgs_def isStringArg_argString
        isBoolArg_argBool isStringsArg_argStrings)

lemma resolveArgs_invalid_since:
  assumes "conformsToInputSchema args" and "args ''since'' = Some (VString s)"
    and "\<not> parseDurationOk e s"
    and "args ''timeout'' = None \<or> (\<exists>t. args ''timeout'' = Some (VString t) \<and> parseDurationOk e t)"
  shows "resolveArgs e args = Inl invalidSince"
  using assms
  by (auto simp: conformsToInputSchema_def resolveArgs_def isStringArg_argString
        isBoolArg_argBool isStringsArg_argStrings)

lemma namespaceExists_found: "namespaceExists ns True items = Inr True"
  by (induction items) simp_all

lemma namespaceExists_listed:
  "ns \<in> set names \<Longrightarrow> namespaceExists ns False (map Inr names) = Inr True"
  by (induction names) (auto simp: namespaceExists_found)

lemma namespaceExists_not_listed:
  "ns \<notin> set names \<Longrightarrow> namespaceExists ns False (map Inr names) = Inr False"
  by (induction names) auto

lemma mustGatherPlan_renders_pod:
  assumes "mustGatherPlan e args = ToolResult r" and "Error r = None"
  obtains cfg gathers podY where
    "resolveArgs e args = Inr cfg" and "gatherContainers cfg = Inr gathers" and
    "yamlMarshal e (PodObject (pod cfg gathers)) = Inr podY" and
    "prefix (planComments (namespace cfg) (keepNamespace cfg)) (Content r)" and
    "suffix (podY @ ''```'') (Content r)"
proof -
  from assms obtain cfg gathers items found where
    a: "resolveArgs e args = Inr cfg" and b: "gatherContainers cfg = Inr gathers" and
    c: "renderPlan (yamlMarshal e) (planComments (namespace cfg) (keepNamespace cfg))
       (namespaceObj (namespace cfg) found) (serviceAccount (namespace cfg))
       (clusterRoleBinding (namespace cfg)) (pod cfg gathers) = ToolResult r"
    by (rule mustGatherPlan_success)
  from renderPlan_success[OF c assms(2)] obtain nsPart saY crbY podY where
    p: "yamlMarshal e (PodObject (pod cfg gathers)) = Inr podY" and
    t: "Content r = planComments (namespace cfg) (keepNamespace cfg) @ nsPart
          @ ''---\<newline>'' @ saY @ ''---\<newline>'' @ crbY @ podY @ ''```''"
    by blast
  have "prefix (planComments (namespace cfg) (keepNamespace cfg)) (Content r)"
    unfolding t by simp
  moreover have "suffix (podY @ ''```'') (Content r)"
    unfolding t by (simp add: suffix_def)
  ultimately show ?thesis using a b p that by blast
qed


lemma pathClean_must_gather:
  "pathClean ''/must-gather/'' = ''/must-gather''" "pathClean ''/must-gather'' = ''/must-gather''"
  by code_simp+

lemma mustGatherPlan_many_images:
  assumes "resolveArgs e args = Inr cfg" and "2 \<le> length (images cfg)"
  shows "mustGatherPlan e args = Panic (IndexOutOfRange 1 1)"
proof -
  from assms(2) obtain a b rest where "images cfg = a # b # rest"
    by (cases "images cfg"; cases "tl (images cfg)") auto
  then have "gatherContainers cfg = Inl (IndexOutOfRange 1 1)"
    by (rule gatherContainers_many)
  with assms(1) show ?thesis
    by (simp add: mustGatherPlan_def)
qed

subsection \<open>The gather containers\<close>

text \<open>
  C1. The claim: for a non-empty \<^verbatim>\<open>images\<close> list of length N the pod has N gather
  containers, one per image in order, and the trailing wait container. The handler
  allocates the slice with length one (\<^verbatim>\<open>make([]corev1.Container, 1)\<close>) and then
  assigns \<^verbatim>\<open>gatherContainers[i]\<close> for every image, so with two images the second
  assignment is out of range: in every environment the handler panics and builds no
  pod at all.
\<close>

theorem C1_two_images_panic:
  "mustGatherPlan e
     (Map.empty(''images'' \<mapsto> VStrings [''quay.io/example/gather-a'', ''quay.io/example/gather-b'']))
   = Panic (IndexOutOfRange 1 1)"
  by (simp add: mustGatherPlan_def resolveArgs_def argString_def argBool_def argStrings_def
        gatherContainers_def)

text \<open>
  C2. The claim: building the plan from a resolved configuration never faults, for an
  \<^verbatim>\<open>images\<close> list of any length. For every configuration whose list has two or more
  images the construction of the gather containers panics with index 1 out of range
  for length 1.
\<close>

theorem C2_builder_faults_on_two_images:
  "gatherContainers (cfg\<lparr>images := a # b # rest\<rparr>) = Inl (IndexOutOfRange 1 1)"
  by (simp add: gatherContainers_many)

text \<open>
  C6. For an empty or absent \<^verbatim>\<open>images\<close> list the pod has exactly one gather
  container, and its image is the fixed default must-gather image: the construction
  returns the one-element list of the template, whose image is
  \<open>defaultMustGatherImage\<close>; the pod's containers are this container and the wait
  container; and when the handler succeeds, the pod it serialized is this pod.
\<close>

theorem C6_no_images_one_default_container:
  assumes "resolveArgs e args = Inr cfg"
    and "args ''images'' = None \<or> args ''images'' = Some (VStrings [])"
  shows "gatherContainers cfg = Inr [gatherContainerTemplate cfg] \<and>
         Image (gatherContainerTemplate cfg) = defaultMustGatherImage \<and>
         containerName (gatherContainerTemplate cfg) = ''gather'' \<and>
         Containers (Spec (pod cfg [gatherContainerTemplate cfg]))
           = [gatherContainerTemplate cfg, waitContainer] \<and>
         (\<forall>r. mustGatherPlan e args = ToolResult r \<and> Error r = None \<longrightarrow>
            (\<exists>podY. yamlMarshal e (PodObject (pod cfg [gatherContainerTemplate cfg])) = Inr podY \<and>
                    suffix (podY @ ''```'') (Content r)))"
proof -
  from assms have im: "images cfg = []"
    by (auto dest: resolveArgs_images_absent resolveArgs_images)
  then have g: "gatherContainers cfg = Inr [gatherContainerTemplate cfg]"
    by (rule gatherContainers_nil)
  have "\<exists>podY. yamlMarshal e (PodObject (pod cfg [gatherContainerTemplate cfg])) = Inr podY \<and>
                    suffix (podY @ ''```'') (Content r)"
    if "mustGatherPlan e args = ToolResult r" and "Error r = None" for r
  proof -
    from that obtain cfg' gathers podY where
      "resolveArgs e args = Inr cfg'" and "gatherContainers cfg' = Inr gathers" and
      "yamlMarshal e (PodObject (pod cfg' gathers)) = Inr podY" and
      "suffix (podY @ ''```'') (Content r)"
      by (rule mustGatherPlan_renders_pod)
    with assms(1) g show ?thesis by auto
  qed
  with g show ?thesis
    by (simp add: gatherContainerTemplate_def pod_def)
qed

text \<open>With only a namespace given, the one gather container is the template.\<close>

theorem C6_witness:
  "resolveArgs sampleEnv (Map.empty(''namespace'' \<mapsto> VString ''default''))
     = Inr \<lparr>nodeName = [], nodeSelector = None, hostNetwork = False,
            sourceDir = ''/must-gather/'', namespace = ''default'', keepNamespace = False,
            gatherCmd = ''/usr/bin/gather'', allImages = False, images = [], timeout = [],
            since = []\<rparr> \<and>
   (Map.empty(''namespace'' \<mapsto> VString ''default'')) ''images'' = None \<and>
   gatherContainers \<lparr>nodeName = [], nodeSelector = None, hostNetwork = False,
            sourceDir = ''/must-gather/'', namespace = ''default'', keepNamespace = False,
            gatherCmd = ''/usr/bin/gather'', allImages = False, images = [], timeout = [],
            since = []\<rparr>
     = Inr [\<lparr>containerName = ''gather'',
             Image = ''registry.redhat.io/openshift4/ose-must-gather:latest'',
             ImagePullPolicy = ''IfNotPresent'', Command = [''/usr/bin/gather''], Env = [],
             VolumeMounts = [\<lparr>mountName = ''must-gather-collection'', MountPath = ''/must-gather/''\<rparr>]\<rparr>]"
proof -
  have r: "resolveArgs sampleEnv (Map.empty(''namespace'' \<mapsto> VString ''default''))
     = Inr \<lparr>nodeName = [], nodeSelector = None, hostNetwork = False,
            sourceDir = ''/must-gather/'', namespace = ''default'', keepNamespace = False,
            gatherCmd = ''/usr/bin/gather'', allImages = False, images = [], timeout = [],
            since = []\<rparr>"
    by (simp add: resolveArgs_def argString_def argBool_def argStrings_def
          defaultGatherSourceDir_def defaultGatherCmd_def)
  have a: "(Map.empty(''namespace'' \<mapsto> VString ''default'')) ''images'' = None \<or>
           (Map.empty(''namespace'' \<mapsto> VString ''default'')) ''images'' = Some (VStrings [])"
    by simp
  from C6_no_images_one_default_container[OF r a] r show ?thesis
    by (simp add: gatherContainerTemplate_def envVars_def defaultMustGatherImage_def)
qed

subsection \<open>The rendered text\<close>

text \<open>
  C3. The claim: the documents are written in the order Namespace (when new),
  ServiceAccount, ClusterRoleBinding, Pod, every two neighbours separated by a
  \<open>---\<close> marker. Whenever the handler succeeds its text is the comment block with the
  opening fence, the Namespace document (behind a marker) when the namespace is new,
  a marker and the ServiceAccount document, a marker and the ClusterRoleBinding
  document, and then the Pod document at once, with no marker between the binding and
  the pod; the closing fence follows. The order holds, the separation of the last pair
  does not.
\<close>

theorem C3_pod_follows_binding_without_separator:
  assumes "mustGatherPlan e args = ToolResult r" and "Error r = None"
  shows "\<exists>cfg gathers items found nsPart saY crbY podY.
           resolveArgs e args = Inr cfg \<and> gatherContainers cfg = Inr gathers \<and>
           namespacesList e = Inr items \<and>
           namespaceExists (namespace cfg) False items = Inr found \<and>
           yamlMarshal e (ServiceAccountObject (serviceAccount (namespace cfg))) = Inr saY \<and>
           yamlMarshal e (ClusterRoleBindingObject (clusterRoleBinding (namespace cfg))) = Inr crbY \<and>
           yamlMarshal e (PodObject (pod cfg gathers)) = Inr podY \<and>
           (case namespaceObj (namespace cfg) found of
              None \<Rightarrow> nsPart = []
            | Some n \<Rightarrow> \<exists>nsY. yamlMarshal e (NamespaceObject n) = Inr nsY \<and> nsPart = ''---\<newline>'' @ nsY) \<and>
           Content r = planComments (namespace cfg) (keepNamespace cfg) @ nsPart
                       @ ''---\<newline>'' @ saY @ ''---\<newline>'' @ crbY @ podY @ ''```''"
proof -
  from assms obtain cfg gathers items found where
    a: "resolveArgs e args = Inr cfg" and b: "gatherContainers cfg = Inr gathers" and
    l: "namespacesList e = Inr items" and
    f: "namespaceExists (namespace cfg) False items = Inr found" and
    c: "renderPlan (yamlMarshal e) (planComments (namespace cfg) (keepNamespace cfg))
       (namespaceObj (namespace cfg) found) (serviceAccount (namespace cfg))
       (clusterRoleBinding (namespace cfg)) (pod cfg gathers) = ToolResult r"
    by (rule mustGatherPlan_success)
  from renderPlan_success[OF c assms(2)] a b l f show ?thesis
    by blast
qed

text \<open>
  The sample run: its text, \<open>samplePlanText\<close>, has the line of the binding's subjects
  directly followed by the metadata line of the pod.
\<close>

theorem C3_witness:
  "mustGatherPlan sampleEnv (Map.empty(''keep_namespace'' \<mapsto> VBool True))
     = ToolResult \<lparr>Content = samplePlanText, Error = None\<rparr> \<and>
   (\<exists>cfg gathers items found nsPart saY crbY podY.
      resolveArgs sampleEnv (Map.empty(''keep_namespace'' \<mapsto> VBool True)) = Inr cfg \<and>
      gatherContainers cfg = Inr gathers \<and>
      namespacesList sampleEnv = Inr items \<and>
      namespaceExists (namespace cfg) False items = Inr found \<and>
      yamlMarshal sampleEnv (ServiceAccountObject (serviceAccount (namespace cfg))) = Inr saY \<and>
      yamlMarshal sampleEnv (ClusterRoleBindingObject (clusterRoleBinding (namespace cfg))) = Inr crbY \<and>
      yamlMarshal sampleEnv (PodObject (pod cfg gathers)) = Inr podY \<and>
      (case namespaceObj (namespace cfg) found of
         None \<Rightarrow> nsPart = []
       | Some n \<Rightarrow> \<exists>nsY. yamlMarshal sampleEnv (NamespaceObject n) = Inr nsY \<and> nsPart = ''---\<newline>'' @ nsY) \<and>
      samplePlanText = planComments (namespace cfg) (keepNamespace cfg) @ nsPart
                       @ ''---\<newline>'' @ saY @ ''---\<newline>'' @ crbY @ podY @ ''```'')"
proof -
  have run: "mustGatherPlan sampleEnv (Map.empty(''keep_namespace'' \<mapsto> VBool True))
     = ToolResult \<lparr>Content = samplePlanText, Error = None\<rparr>"
    by code_simp
  have ok: "Error \<lparr>Content = samplePlanText, Error = None\<rparr> = None"
    by simp
  from C3_pod_follows_binding_without_separator[OF run ok] run show ?thesis
    by simp
qed


subsection \<open>The image_stream parameter\<close>

text \<open>
  C4, as amended. The claim: a non-empty \<^verbatim>\<open>image_stream\<close> always yields a hard
  error and nothing else happens. This holds for the handler of must_gather_plan.go:
  for every other argument and every environment it returns the Go error that names
  the \<^verbatim>\<open>--image\<close> parameter, before any name is drawn or descriptor built. The
  handler \<open>mustGatherPlan\<close> of mustgather.go has no such parameter and never reads
  the key: its outcome is the same with and without it.
\<close>

theorem C4_image_stream_rejected_by_must_gather_plan:
  assumes "args ''image_stream'' = Some (VString s)" and "s \<noteq> []"
  shows "must_gather_plan_Handler e args = GoError imageStreamNotSupported \<and>
         mustGatherPlan e args = mustGatherPlan e (args(''image_stream'' := None))"
proof -
  from assms have "argStringOrEmpty args ''image_stream'' \<noteq> []"
    by (simp add: argStringOrEmpty_def)
  then have "must_gather_plan_Handler e args = GoError imageStreamNotSupported"
    by (simp add: must_gather_plan_Handler_def)
  moreover have "mustGatherPlan e (args(''image_stream'' := None)) = mustGatherPlan e args"
    by (rule mustGatherPlan_ignores_image_stream)
  ultimately show ?thesis by simp
qed

text \<open>The handler of must_gather_plan.go on \<^verbatim>\<open>image_stream = "foo"\<close> and an image.\<close>

theorem C4_witness:
  "(Map.empty(''image_stream'' \<mapsto> VString ''foo'', ''image'' \<mapsto> VString ''quay.io/example/gather''))
      ''image_stream'' = Some (VString ''foo'') \<and> ''foo'' \<noteq> [] \<and>
   must_gather_plan_Handler sampleEnv
     (Map.empty(''image_stream'' \<mapsto> VString ''foo'', ''image'' \<mapsto> VString ''quay.io/example/gather''))
     = GoError ''the --image-stream parameter is not yet supported. Please use the --image parameter''"
proof -
  have h: "(Map.empty(''image_stream'' \<mapsto> VString ''foo'', ''image'' \<mapsto> VString ''quay.io/example/gather''))
      ''image_stream'' = Some (VString ''foo'')"
    by simp
  have n: "''foo'' \<noteq> []" by simp
  from C4_image_stream_rejected_by_must_gather_plan
         [where args = "Map.empty(''image_stream'' \<mapsto> VString ''foo'', ''image'' \<mapsto> VString ''quay.io/example/gather'')"
            and s = "''foo''" and e = sampleEnv, OF h n] h
  show ?thesis
    by (simp add: imageStreamNotSupported_def)
qed

text \<open>
  The claim as stated fails for \<open>mustGatherPlan\<close>: with
  \<^verbatim>\<open>image_stream = "foo"\<close> it returns no error but the whole plan of the sample run.
\<close>

theorem C4_counterexample:
  "\<not> yieldsError (mustGatherPlan sampleEnv
        (Map.empty(''image_stream'' \<mapsto> VString ''foo'', ''keep_namespace'' \<mapsto> VBool True))) \<and>
   contentOf (mustGatherPlan sampleEnv
        (Map.empty(''image_stream'' \<mapsto> VString ''foo'', ''keep_namespace'' \<mapsto> VBool True)))
     = samplePlanText"
  by code_simp


subsection \<open>The source directory\<close>

text \<open>
  C5, as amended. The claim: the supplied \<^verbatim>\<open>source_dir\<close> is normalized and the
  normalized value is both the mount path of the gather containers and the value
  reported in the output comments. The first half holds: a supplied \<^verbatim>\<open>source_dir\<close>
  goes through \<^verbatim>\<open>path.Clean\<close>, the result is the mount path of every gather
  container, and \<^verbatim>\<open>"/must-gather/"\<close> and \<^verbatim>\<open>"/must-gather"\<close> both give
  \<^verbatim>\<open>"/must-gather"\<close>. The comments do not report the source directory: the text of
  a successful call starts with \<open>planComments\<close>, which is built from the namespace and
  the keep flag alone and names the fixed path \<^verbatim>\<open>/must-gather\<close> of the wait
  container.
\<close>

theorem C5_source_dir_is_the_mount_path:
  assumes "resolveArgs e args = Inr cfg" and "args ''source_dir'' = Some (VString d)"
    and "gatherContainers cfg = Inr gathers"
  shows "sourceDir cfg = pathClean d \<and>
         gathers \<noteq> [] \<and>
         list_all (\<lambda>c. map MountPath (VolumeMounts c) = [pathClean d]) gathers \<and>
         pathClean ''/must-gather/'' = ''/must-gather'' \<and>
         pathClean ''/must-gather'' = ''/must-gather'' \<and>
         (\<forall>r. mustGatherPlan e args = ToolResult r \<and> Error r = None \<longrightarrow>
            prefix (planComments (namespace cfg) (keepNamespace cfg)) (Content r))"
proof -
  have sd: "sourceDir cfg = pathClean d"
    using assms(1,2) by (rule resolveArgs_sourceDir)
  from gatherContainers_Inr[OF assms(3)] sd
  have g: "gathers \<noteq> [] \<and> list_all (\<lambda>c. map MountPath (VolumeMounts c) = [pathClean d]) gathers"
    by (simp add: gatherContainerTemplate_def)
  have "prefix (planComments (namespace cfg) (keepNamespace cfg)) (Content r)"
    if "mustGatherPlan e args = ToolResult r" and "Error r = None" for r
  proof -
    from that obtain cfg' where
      "resolveArgs e args = Inr cfg'" and
      "prefix (planComments (namespace cfg') (keepNamespace cfg')) (Content r)"
      by (rule mustGatherPlan_renders_pod)
    with assms(1) show ?thesis by simp
  qed
  with sd g show ?thesis by (simp add: pathClean_must_gather)
qed

text \<open>The source directory \<^verbatim>\<open>"/must-gather/"\<close> is mounted as \<^verbatim>\<open>"/must-gather"\<close>.\<close>

theorem C5_witness:
  "resolveArgs sampleEnv
     (Map.empty(''source_dir'' \<mapsto> VString ''/must-gather/'', ''namespace'' \<mapsto> VString ''default''))
     = Inr \<lparr>nodeName = [], nodeSelector = None, hostNetwork = False,
            sourceDir = ''/must-gather'', namespace = ''default'', keepNamespace = False,
            gatherCmd = ''/usr/bin/gather'', allImages = False, images = [], timeout = [],
            since = []\<rparr> \<and>
   gatherContainers \<lparr>nodeName = [], nodeSelector = None, hostNetwork = False,
            sourceDir = ''/must-gather'', namespace = ''default'', keepNamespace = False,
            gatherCmd = ''/usr/bin/gather'', allImages = False, images = [], timeout = [],
            since = []\<rparr>
     = Inr [\<lparr>containerName = ''gather'',
             Image = ''registry.redhat.io/openshift4/ose-must-gather:latest'',
             ImagePullPolicy = ''IfNotPresent'', Command = [''/usr/bin/gather''], Env = [],
             VolumeMounts = [\<lparr>mountName = ''must-gather-collection'', MountPath = ''/must-gather''\<rparr>]\<rparr>] \<and>
   pathClean ''/must-gather/'' = ''/must-gather''"
proof -
  have r: "resolveArgs sampleEnv
     (Map.empty(''source_dir'' \<mapsto> VString ''/must-gather/'', ''namespace'' \<mapsto> VString ''default''))
     = Inr \<lparr>nodeName = [], nodeSelector = None, hostNetwork = False,
            sourceDir = ''/must-gather'', namespace = ''default'', keepNamespace = False,
            gatherCmd = ''/usr/bin/gather'', allImages = False, images = [], timeout = [],
            since = []\<rparr>"
    by (simp add: resolveArgs_def argString_def argBool_def argStrings_def
          defaultGatherCmd_def pathClean_must_gather)
  have a: "(Map.empty(''source_dir'' \<mapsto> VString ''/must-gather/'', ''namespace'' \<mapsto> VString ''default''))
             ''source_dir'' = Some (VString ''/must-gather/'')"
    by simp
  have g: "gatherContainers \<lparr>nodeName = [], nodeSelector = None, hostNetwork = False,
            sourceDir = ''/must-gather'', namespace = ''default'', keepNamespace = False,
            gatherCmd = ''/usr/bin/gather'', allImages = False, images = [], timeout = [],
            since = []\<rparr>
     = Inr [\<lparr>containerName = ''gather'',
             Image = ''registry.redhat.io/openshift4/ose-must-gather:latest'',
             ImagePullPolicy = ''IfNotPresent'', Command = [''/usr/bin/gather''], Env = [],
             VolumeMounts = [\<lparr>mountName = ''must-gather-collection'', MountPath = ''/must-gather''\<rparr>]\<rparr>]"
    by (simp add: gatherContainers_def gatherContainerTemplate_def envVars_def
          defaultMustGatherImage_def)
  have w: "pathClean ''/must-gather/'' = ''/must-gather''"
    using C5_source_dir_is_the_mount_path[OF r a g] by (elim conjE)
  show ?thesis
    using r g w by (intro conjI)
qed

text \<open>
  The claim as stated fails for \<^verbatim>\<open>source_dir = "/data//"\<close>: it is normalized to
  \<^verbatim>\<open>/data\<close> and mounted there (the line of the gather container in the sample
  serialization ends with it), but no comment line of the output mentions
  \<^verbatim>\<open>/data\<close>; the copy command names \<^verbatim>\<open>/must-gather\<close>.
\<close>

theorem C5_counterexample:
  "pathClean ''/data//'' = ''/data'' \<and>
   commentLines (contentOf (mustGatherPlan sampleEnv
      (Map.empty(''source_dir'' \<mapsto> VString ''/data//'', ''namespace'' \<mapsto> VString ''default'',
                 ''keep_namespace'' \<mapsto> VBool True))))
     = [''# Save the following content to a file (e.g., must-gather-plan.yaml) and apply it with 'kubectl apply -f must-gather-plan.yaml'' @ [CHR 0x27],
        ''# Monitor the pod's logs to see when the must-gather process is complete:'',
        ''# kubectl logs -f -n default <pod-name> -c gather'',
        ''# Once the logs indicate completion, copy the results with:'',
        ''# kubectl cp -n default <pod-name>:/must-gather ./must-gather-output -c wait''] \<and>
   \<not> list_ex (sublist ''/data'')
       (commentLines (contentOf (mustGatherPlan sampleEnv
          (Map.empty(''source_dir'' \<mapsto> VString ''/data//'', ''namespace'' \<mapsto> VString ''default'',
                     ''keep_namespace'' \<mapsto> VBool True))))) \<and>
   list_ex (sublist ''- gather registry.redhat.io/openshift4/ose-must-gather:latest /data'')
       (splitOn (CHR 0x0A) (contentOf (mustGatherPlan sampleEnv
          (Map.empty(''source_dir'' \<mapsto> VString ''/data//'', ''namespace'' \<mapsto> VString ''default'',
                     ''keep_namespace'' \<mapsto> VBool True)))))"
  by code_simp

subsection \<open>Durations\<close>

text \<open>
  C7. For arguments of the types the input schema declares: a \<^verbatim>\<open>timeout\<close> that
  does not parse as a duration ends the handler while it still reads its arguments,
  with a tool result whose content is empty and whose error says that the timeout
  duration is not valid; nothing is listed, built or serialized. A \<^verbatim>\<open>since\<close> that
  does not parse fails the same way with its own message, when the timeout (checked
  first) is absent or parses.
\<close>

theorem C7_unparsable_durations_rejected:
  assumes "conformsToInputSchema args"
  shows "(\<forall>t. args ''timeout'' = Some (VString t) \<and> \<not> parseDurationOk e t \<longrightarrow>
            resolveArgs e args = Inl invalidTimeout \<and>
            mustGatherPlan e args
              = ToolResult \<lparr>Content = [], Error = Some ''timeout duration is not valid''\<rparr>) \<and>
         (\<forall>s. args ''since'' = Some (VString s) \<and> \<not> parseDurationOk e s \<and>
              (args ''timeout'' = None \<or>
               (\<exists>t. args ''timeout'' = Some (VString t) \<and> parseDurationOk e t)) \<longrightarrow>
            resolveArgs e args = Inl invalidSince \<and>
            mustGatherPlan e args
              = ToolResult \<lparr>Content = [], Error = Some ''since duration is not valid''\<rparr>)"
proof (intro conjI allI impI)
  fix t
  assume "args ''timeout'' = Some (VString t) \<and> \<not> parseDurationOk e t"
  with assms show a: "resolveArgs e args = Inl invalidTimeout"
    by (simp add: resolveArgs_invalid_timeout)
  then show "mustGatherPlan e args
              = ToolResult \<lparr>Content = [], Error = Some ''timeout duration is not valid''\<rparr>"
    by (simp add: mustGatherPlan_def invalidTimeout_def NewToolCallResult_def)
next
  fix s
  assume "args ''since'' = Some (VString s) \<and> \<not> parseDurationOk e s \<and>
              (args ''timeout'' = None \<or>
               (\<exists>t. args ''timeout'' = Some (VString t) \<and> parseDurationOk e t))"
  with assms show a: "resolveArgs e args = Inl invalidSince"
    by (simp add: resolveArgs_invalid_since)
  then show "mustGatherPlan e args
              = ToolResult \<lparr>Content = [], Error = Some ''since duration is not valid''\<rparr>"
    by (simp add: mustGatherPlan_def invalidSince_def NewToolCallResult_def)
qed

text \<open>
  \<^verbatim>\<open>timeout = "notaduration"\<close>, and \<^verbatim>\<open>since = "yesterday"\<close> beside a timeout
  that parses.
\<close>

theorem C7_witness:
  "conformsToInputSchema (Map.empty(''timeout'' \<mapsto> VString ''notaduration'')) \<and>
   \<not> parseDurationOk sampleEnv ''notaduration'' \<and>
   mustGatherPlan sampleEnv (Map.empty(''timeout'' \<mapsto> VString ''notaduration''))
     = ToolResult \<lparr>Content = [], Error = Some ''timeout duration is not valid''\<rparr> \<and>
   conformsToInputSchema (Map.empty(''timeout'' \<mapsto> VString ''10m'', ''since'' \<mapsto> VString ''yesterday'')) \<and>
   parseDurationOk sampleEnv ''10m'' \<and> \<not> parseDurationOk sampleEnv ''yesterday'' \<and>
   mustGatherPlan sampleEnv (Map.empty(''timeout'' \<mapsto> VString ''10m'', ''since'' \<mapsto> VString ''yesterday''))
     = ToolResult \<lparr>Content = [], Error = Some ''since duration is not valid''\<rparr>"
proof -
  have c1: "conformsToInputSchema (Map.empty(''timeout'' \<mapsto> VString ''notaduration''))"
    by (simp add: conformsToInputSchema_def isStringArg_def isBoolArg_def isStringsArg_def)
  have c2: "conformsToInputSchema (Map.empty(''timeout'' \<mapsto> VString ''10m'', ''since'' \<mapsto> VString ''yesterday''))"
    by (simp add: conformsToInputSchema_def isStringArg_def isBoolArg_def isStringsArg_def)
  have p: "\<not> parseDurationOk sampleEnv ''notaduration''" "parseDurationOk sampleEnv ''10m''"
    "\<not> parseDurationOk sampleEnv ''yesterday''"
    by (simp_all add: sampleEnv_def)
  from C7_unparsable_durations_rejected[OF c1, of sampleEnv]
       C7_unparsable_durations_rejected[OF c2, of sampleEnv] c1 c2 p
  show ?thesis by simp
qed

subsection \<open>The namespace\<close>

text \<open>
  C8. When the listing reports a namespace with the resolved name, the text holds no
  Namespace document: it is the comment block, the ServiceAccount document, the
  ClusterRoleBinding document and the Pod document, and the Namespace descriptor is
  not built. The service account, the subject of the binding and the pod all carry the
  resolved name as their namespace; and when the namespace is new, the Namespace
  descriptor carries it as its name.
\<close>

theorem C8_existing_namespace_not_rendered:
  assumes "resolveArgs e args = Inr cfg" and "gatherContainers cfg = Inr gathers"
    and "namespacesList e = Inr (map Inr names)" and "namespace cfg \<in> set names"
    and "yamlMarshal e (ServiceAccountObject (serviceAccount (namespace cfg))) = Inr saY"
    and "yamlMarshal e (ClusterRoleBindingObject (clusterRoleBinding (namespace cfg))) = Inr crbY"
    and "yamlMarshal e (PodObject (pod cfg gathers)) = Inr podY"
  shows "mustGatherPlan e args
           = ToolResult \<lparr>Content = planComments (namespace cfg) (keepNamespace cfg)
                          @ ''---\<newline>'' @ saY @ ''---\<newline>'' @ crbY @ podY @ ''```'',
                        Error = None\<rparr> \<and>
         namespaceObj (namespace cfg) True = None \<and>
         Namespace (saObjectMeta (serviceAccount (namespace cfg))) = namespace cfg \<and>
         map subjectNamespace (Subjects (clusterRoleBinding (namespace cfg))) = [namespace cfg] \<and>
         Namespace (podObjectMeta (pod cfg gathers)) = namespace cfg \<and>
         map_option (\<lambda>n. Name (nsObjectMeta n)) (namespaceObj (namespace cfg) False)
           = Some (namespace cfg)"
proof -
  have "namespaceExists (namespace cfg) False (map Inr names) = Inr True"
    using assms(4) by (rule namespaceExists_listed)
  with assms have "mustGatherPlan e args
           = ToolResult \<lparr>Content = planComments (namespace cfg) (keepNamespace cfg)
                          @ ''---\<newline>'' @ saY @ ''---\<newline>'' @ crbY @ podY @ ''```'',
                        Error = None\<rparr>"
    by (simp add: mustGatherPlan_def renderPlan_def NewToolCallResult_def namespaceObj_def)
  then show ?thesis
    by (simp add: namespaceObj_def serviceAccount_def clusterRoleBinding_def pod_def)
qed

text \<open>The namespace \<open>default\<close> exists in the sample environment.\<close>

theorem C8_witness:
  "resolveArgs sampleEnv
     (Map.empty(''namespace'' \<mapsto> VString ''default'', ''keep_namespace'' \<mapsto> VBool True))
     = Inr \<lparr>nodeName = [], nodeSelector = None, hostNetwork = False,
            sourceDir = ''/must-gather/'', namespace = ''default'', keepNamespace = True,
            gatherCmd = ''/usr/bin/gather'', allImages = False, images = [], timeout = [],
            since = []\<rparr> \<and>
   namespacesList sampleEnv = Inr (map Inr [''default'', ''kube-system'']) \<and>
   mustGatherPlan sampleEnv
     (Map.empty(''namespace'' \<mapsto> VString ''default'', ''keep_namespace'' \<mapsto> VBool True))
     = ToolResult \<lparr>Content =
         ''# Save the following content to a file (e.g., must-gather-plan.yaml) and apply it with 'kubectl apply -f must-gather-plan.yaml'\<newline>'' @
         ''# Monitor the pod's logs to see when the must-gather process is complete:\<newline>'' @
         ''# kubectl logs -f -n default <pod-name> -c gather\<newline>'' @
         ''# Once the logs indicate completion, copy the results with:\<newline>'' @
         ''# kubectl cp -n default <pod-name>:/must-gather ./must-gather-output -c wait\<newline>'' @
         ''\<newline>'' @
         ''```yaml---\<newline>'' @
         ''apiVersion: v1\<newline>'' @
         ''kind: ServiceAccount\<newline>'' @
         ''metadata: default/must-gather-collector\<newline>'' @
         ''---\<newline>'' @
         ''apiVersion: rbac.authorization.k8s.io/v1\<newline>'' @
         ''kind: ClusterRoleBinding\<newline>'' @
         ''metadata: /must-gather-collector-default\<newline>'' @
         ''subjects: [default/must-gather-collector]\<newline>'' @
         ''metadata: default/must-gather-\<newline>'' @
         ''containers:\<newline>'' @
         ''- gather registry.redhat.io/openshift4/ose-must-gather:latest /must-gather/\<newline>'' @
         ''- wait registry.redhat.io/ubi9/ubi-minimal /must-gather\<newline>'' @
         ''```'',
       Error = None\<rparr>"
proof -
  let ?cfg = "\<lparr>nodeName = [], nodeSelector = None, hostNetwork = False,
            sourceDir = ''/must-gather/'', namespace = ''default'', keepNamespace = True,
            gatherCmd = ''/usr/bin/gather'', allImages = False, images = [], timeout = [],
            since = []\<rparr>"
  have r: "resolveArgs sampleEnv
     (Map.empty(''namespace'' \<mapsto> VString ''default'', ''keep_namespace'' \<mapsto> VBool True))
     = Inr ?cfg"
    by (simp add: resolveArgs_def argString_def argBool_def argStrings_def
          defaultGatherSourceDir_def defaultGatherCmd_def)
  have g: "gatherContainers ?cfg = Inr [gatherContainerTemplate ?cfg]"
    by (simp add: gatherContainers_nil)
  have l: "namespacesList sampleEnv = Inr (map Inr [''default'', ''kube-system''])"
    by (simp add: sampleEnv_def)
  have m: "namespace ?cfg \<in> set [''default'', ''kube-system'']"
    by simp
  have sa: "yamlMarshal sampleEnv (ServiceAccountObject (serviceAccount (namespace ?cfg)))
      = Inr (''apiVersion: v1\<newline>'' @ ''kind: ServiceAccount\<newline>'' @
             ''metadata: default/must-gather-collector\<newline>'')"
    by (simp add: sampleEnv_def serviceAccount_def serviceAccountName_def typeMetaLines_def
          typeMetaFields_def objectMetaLine_def)
  have crb: "yamlMarshal sampleEnv (ClusterRoleBindingObject (clusterRoleBinding (namespace ?cfg)))
      = Inr (''apiVersion: rbac.authorization.k8s.io/v1\<newline>'' @
             ''kind: ClusterRoleBinding\<newline>'' @
             ''metadata: /must-gather-collector-default\<newline>'' @
             ''subjects: [default/must-gather-collector]\<newline>'')"
    by (simp add: sampleEnv_def clusterRoleBinding_def clusterRoleBindingName_def
          serviceAccountName_def typeMetaLines_def typeMetaFields_def objectMetaLine_def)
  have p: "yamlMarshal sampleEnv (PodObject (pod ?cfg [gatherContainerTemplate ?cfg]))
      = Inr (''metadata: default/must-gather-\<newline>'' @ ''containers:\<newline>'' @
             ''- gather registry.redhat.io/openshift4/ose-must-gather:latest /must-gather/\<newline>'' @
             ''- wait registry.redhat.io/ubi9/ubi-minimal /must-gather\<newline>'')"
    by (simp add: sampleEnv_def pod_def gatherContainerTemplate_def waitContainer_def
          emptyTypeMeta_def defaultMustGatherImage_def envVars_def typeMetaLines_def
          typeMetaFields_def objectMetaLine_def containerLine_def)
  from C8_existing_namespace_not_rendered[OF r g l m sa crb p] r l show ?thesis
    by (simp add: planComments_def)
qed

subsection \<open>TypeMeta of the descriptors\<close>

lemma namespaceObj_Some:
  assumes "namespaceObj ns found = Some n"
  shows "nsTypeMeta n = \<lparr>Kind = ''Namespace'', APIVersion = ''v1''\<rparr> \<and>
         Name (nsObjectMeta n) = ns \<and> \<not> found"
  using assms by (auto simp: namespaceObj_def split: if_splits)

lemma descriptors_typeMetaFields:
  "typeMetaOf (PodObject (pod cfg gathers)) = \<lparr>Kind = [], APIVersion = []\<rparr>"
  "typeMetaFields (typeMetaOf (PodObject (pod cfg gathers))) = []"
  "typeMetaFields (typeMetaOf (ServiceAccountObject (serviceAccount ns)))
     = [(''apiVersion'', ''v1''), (''kind'', ''ServiceAccount'')]"
  "typeMetaFields (typeMetaOf (ClusterRoleBindingObject (clusterRoleBinding ns)))
     = [(''apiVersion'', ''rbac.authorization.k8s.io/v1''), (''kind'', ''ClusterRoleBinding'')]"
  by (simp_all add: pod_def emptyTypeMeta_def typeMetaFields_def serviceAccount_def
        clusterRoleBinding_def)

text \<open>
  C9. In every plan that \<open>mustGatherPlan\<close> renders, the text is the comment block
  followed by the documents the serializer returns for the descriptors of the handler,
  and the Pod document is the serialization of a pod whose TypeMeta is empty: both
  fields are tagged \<^verbatim>\<open>omitempty\<close>, so it gets no \<^verbatim>\<open>apiVersion\<close> and no
  \<^verbatim>\<open>kind\<close> key. The ServiceAccount document, the ClusterRoleBinding document and
  the Namespace document (when there is one) are the serializations of descriptors
  that carry both keys explicitly.
\<close>

theorem C9_rendered_pod_without_type_meta:
  assumes "mustGatherPlan e args = ToolResult r" and "Error r = None"
  shows "\<exists>cfg gathers items found nsPart saY crbY podY.
           resolveArgs e args = Inr cfg \<and> gatherContainers cfg = Inr gathers \<and>
           namespacesList e = Inr items \<and>
           namespaceExists (namespace cfg) False items = Inr found \<and>
           Content r = planComments (namespace cfg) (keepNamespace cfg) @ nsPart
                       @ ''---\<newline>'' @ saY @ ''---\<newline>'' @ crbY @ podY @ ''```'' \<and>
           yamlMarshal e (PodObject (pod cfg gathers)) = Inr podY \<and>
           typeMetaOf (PodObject (pod cfg gathers)) = \<lparr>Kind = [], APIVersion = []\<rparr> \<and>
           typeMetaFields (typeMetaOf (PodObject (pod cfg gathers))) = [] \<and>
           yamlMarshal e (ServiceAccountObject (serviceAccount (namespace cfg))) = Inr saY \<and>
           typeMetaFields (typeMetaOf (ServiceAccountObject (serviceAccount (namespace cfg))))
             = [(''apiVersion'', ''v1''), (''kind'', ''ServiceAccount'')] \<and>
           yamlMarshal e (ClusterRoleBindingObject (clusterRoleBinding (namespace cfg))) = Inr crbY \<and>
           typeMetaFields (typeMetaOf (ClusterRoleBindingObject (clusterRoleBinding (namespace cfg))))
             = [(''apiVersion'', ''rbac.authorization.k8s.io/v1''), (''kind'', ''ClusterRoleBinding'')] \<and>
           (case namespaceObj (namespace cfg) found of
              None \<Rightarrow> nsPart = []
            | Some n \<Rightarrow>
                \<exists>nsY. yamlMarshal e (NamespaceObject n) = Inr nsY \<and>
                      nsPart = ''---\<newline>'' @ nsY \<and>
                      typeMetaFields (typeMetaOf (NamespaceObject n))
                        = [(''apiVersion'', ''v1''), (''kind'', ''Namespace'')])"
proof -
  from assms obtain cfg gathers items found where
    a: "resolveArgs e args = Inr cfg" and b: "gatherContainers cfg = Inr gathers" and
    l: "namespacesList e = Inr items" and
    f: "namespaceExists (namespace cfg) False items = Inr found" and
    c: "renderPlan (yamlMarshal e) (planComments (namespace cfg) (keepNamespace cfg))
       (namespaceObj (namespace cfg) found) (serviceAccount (namespace cfg))
       (clusterRoleBinding (namespace cfg)) (pod cfg gathers) = ToolResult r"
    by (rule mustGatherPlan_success)
  from renderPlan_success[OF c assms(2)] obtain nsPart saY crbY podY where
    sa: "yamlMarshal e (ServiceAccountObject (serviceAccount (namespace cfg))) = Inr saY" and
    crb: "yamlMarshal e (ClusterRoleBindingObject (clusterRoleBinding (namespace cfg))) = Inr crbY" and
    p: "yamlMarshal e (PodObject (pod cfg gathers)) = Inr podY" and
    n: "(case namespaceObj (namespace cfg) found of
           None \<Rightarrow> nsPart = []
         | Some n \<Rightarrow> \<exists>nsY. yamlMarshal e (NamespaceObject n) = Inr nsY \<and> nsPart = ''---\<newline>'' @ nsY)" and
    t: "Content r = planComments (namespace cfg) (keepNamespace cfg) @ nsPart
                       @ ''---\<newline>'' @ saY @ ''---\<newline>'' @ crbY @ podY @ ''```''"
    by blast
  have n': "(case namespaceObj (namespace cfg) found of
              None \<Rightarrow> nsPart = []
            | Some n \<Rightarrow>
                \<exists>nsY. yamlMarshal e (NamespaceObject n) = Inr nsY \<and>
                      nsPart = ''---\<newline>'' @ nsY \<and>
                      typeMetaFields (typeMetaOf (NamespaceObject n))
                        = [(''apiVersion'', ''v1''), (''kind'', ''Namespace'')])"
  proof (cases "namespaceObj (namespace cfg) found")
    case None
    with n show ?thesis by simp
  next
    case (Some ns)
    from namespaceObj_Some[OF Some]
    have "typeMetaFields (typeMetaOf (NamespaceObject ns))
            = [(''apiVersion'', ''v1''), (''kind'', ''Namespace'')]"
      by (simp add: typeMetaFields_def)
    with n Some show ?thesis by simp
  qed
  show ?thesis
    apply (rule exI[of _ cfg], rule exI[of _ gathers], rule exI[of _ items], rule exI[of _ found])
    apply (rule exI[of _ nsPart], rule exI[of _ saY], rule exI[of _ crbY], rule exI[of _ podY])
    apply (intro conjI)
    apply (rule a b l f t p sa crb n' descriptors_typeMetaFields)+
    done
qed

text \<open>
  The sample run, whose serializer writes the TypeMeta keys: the text has three
  \<^verbatim>\<open>kind\<close> lines and three \<^verbatim>\<open>apiVersion\<close> lines, none of them for the pod.
\<close>

theorem C9_witness:
  "mustGatherPlan sampleEnv (Map.empty(''keep_namespace'' \<mapsto> VBool True))
     = ToolResult \<lparr>Content = samplePlanText, Error = None\<rparr> \<and>
   filter (prefix ''kind: '') (splitOn (CHR 0x0A) samplePlanText)
     = [''kind: Namespace'', ''kind: ServiceAccount'', ''kind: ClusterRoleBinding''] \<and>
   filter (prefix ''apiVersion: '') (splitOn (CHR 0x0A) samplePlanText)
     = [''apiVersion: v1'', ''apiVersion: v1'', ''apiVersion: rbac.authorization.k8s.io/v1''] \<and>
   (\<exists>cfg gathers items found nsPart saY crbY podY.
      resolveArgs sampleEnv (Map.empty(''keep_namespace'' \<mapsto> VBool True)) = Inr cfg \<and>
      gatherContainers cfg = Inr gathers \<and>
      namespacesList sampleEnv = Inr items \<and>
      namespaceExists (namespace cfg) False items = Inr found \<and>
      samplePlanText = planComments (namespace cfg) (keepNamespace cfg) @ nsPart
                       @ ''---\<newline>'' @ saY @ ''---\<newline>'' @ crbY @ podY @ ''```'' \<and>
      yamlMarshal sampleEnv (PodObject (pod cfg gathers)) = Inr podY \<and>
      typeMetaOf (PodObject (pod cfg gathers)) = \<lparr>Kind = [], APIVersion = []\<rparr> \<and>
      typeMetaFields (typeMetaOf (PodObject (pod cfg gathers))) = [] \<and>
      yamlMarshal sampleEnv (ServiceAccountObject (serviceAccount (namespace cfg))) = Inr saY \<and>
      typeMetaFields (typeMetaOf (ServiceAccountObject (serviceAccount (namespace cfg))))
        = [(''apiVersion'', ''v1''), (''kind'', ''ServiceAccount'')] \<and>
      yamlMarshal sampleEnv (ClusterRoleBindingObject (clusterRoleBinding (namespace cfg))) = Inr crbY \<and>
      typeMetaFields (typeMetaOf (ClusterRoleBindingObject (clusterRoleBinding (namespace cfg))))
        = [(''apiVersion'', ''rbac.authorization.k8s.io/v1''), (''kind'', ''ClusterRoleBinding'')] \<and>
      (case namespaceObj (namespace cfg) found of
         None \<Rightarrow> nsPart = []
       | Some n \<Rightarrow>
           \<exists>nsY. yamlMarshal sampleEnv (NamespaceObject n) = Inr nsY \<and>
                 nsPart = ''---\<newline>'' @ nsY \<and>
                 typeMetaFields (typeMetaOf (NamespaceObject n))
                   = [(''apiVersion'', ''v1''), (''kind'', ''Namespace'')]))"
proof -
  have run: "mustGatherPlan sampleEnv (Map.empty(''keep_namespace'' \<mapsto> VBool True))
     = ToolResult \<lparr>Content = samplePlanText, Error = None\<rparr>"
    by code_simp
  have ok: "Error \<lparr>Content = samplePlanText, Error = None\<rparr> = None"
    by simp
  have k: "filter (prefix ''kind: '') (splitOn (CHR 0x0A) samplePlanText)
     = [''kind: Namespace'', ''kind: ServiceAccount'', ''kind: ClusterRoleBinding'']"
    by code_simp
  have v: "filter (prefix ''apiVersion: '') (splitOn (CHR 0x0A) samplePlanText)
     = [''apiVersion: v1'', ''apiVersion: v1'', ''apiVersion: rbac.authorization.k8s.io/v1'']"
    by code_simp
  have ex: "\<exists>cfg gathers items found nsPart saY crbY podY.
      resolveArgs sampleEnv (Map.empty(''keep_namespace'' \<mapsto> VBool True)) = Inr cfg \<and>
      gatherContainers cfg = Inr gathers \<and>
      namespacesList sampleEnv = Inr items \<and>
      namespaceExists (namespace cfg) False items = Inr found \<and>
      samplePlanText = planComments (namespace cfg) (keepNamespace cfg) @ nsPart
                       @ ''---\<newline>'' @ saY @ ''---\<newline>'' @ crbY @ podY @ ''```'' \<and>
      yamlMarshal sampleEnv (PodObject (pod cfg gathers)) = Inr podY \<and>
      typeMetaOf (PodObject (pod cfg gathers)) = \<lparr>Kind = [], APIVersion = []\<rparr> \<and>
      typeMetaFields (typeMetaOf (PodObject (pod cfg gathers))) = [] \<and>
      yamlMarshal sampleEnv (ServiceAccountObject (serviceAccount (namespace cfg))) = Inr saY \<and>
      typeMetaFields (typeMetaOf (ServiceAccountObject (serviceAccount (namespace cfg))))
        = [(''apiVersion'', ''v1''), (''kind'', ''ServiceAccount'')] \<and>
      yamlMarshal sampleEnv (ClusterRoleBindingObject (clusterRoleBinding (namespace cfg))) = Inr crbY \<and>
      typeMetaFields (typeMetaOf (ClusterRoleBindingObject (clusterRoleBinding (namespace cfg))))
        = [(''apiVersion'', ''rbac.authorization.k8s.io/v1''), (''kind'', ''ClusterRoleBinding'')] \<and>
      (case namespaceObj (namespace cfg) found of
         None \<Rightarrow> nsPart = []
       | Some n \<Rightarrow>
           \<exists>nsY. yamlMarshal sampleEnv (NamespaceObject n) = Inr nsY \<and>
                 nsPart = ''---\<newline>'' @ nsY \<and>
                 typeMetaFields (typeMetaOf (NamespaceObject n))
                   = [(''apiVersion'', ''v1''), (''kind'', ''Namespace'')])"
    using C9_rendered_pod_without_type_meta[OF run ok] by (simp only: ToolCallResult.simps)
  show ?thesis
    using run k v ex by (intro conjI)
qed

subsection \<open>The command of a gather container\<close>

text \<open>
  C10. Every gather container's command is the one-element list of the resolved gather
  command. With a \<^verbatim>\<open>timeout\<close> the resolved command is the single string
  \<^verbatim>\<open>/usr/bin/timeout <timeout> <command>\<close>, where the command is the supplied
  \<^verbatim>\<open>gather_command\<close> or the default; without one it is that command itself.
\<close>

theorem C10_command_is_one_element:
  assumes "resolveArgs e args = Inr cfg" and "gatherContainers cfg = Inr gathers"
  shows "gathers \<noteq> [] \<and> list_all (\<lambda>c. Command c = [gatherCmd cfg]) gathers \<and>
         (\<forall>t. args ''timeout'' = Some (VString t) \<longrightarrow>
            gatherCmd cfg = ''/usr/bin/timeout '' @ t @ '' '' @
              (case args ''gather_command'' of Some (VString g) \<Rightarrow> g | _ \<Rightarrow> defaultGatherCmd)) \<and>
         (args ''timeout'' = None \<longrightarrow>
            gatherCmd cfg =
              (case args ''gather_command'' of Some (VString g) \<Rightarrow> g | _ \<Rightarrow> defaultGatherCmd))"
proof -
  from gatherContainers_Inr[OF assms(2)]
  have "gathers \<noteq> [] \<and> list_all (\<lambda>c. Command c = [gatherCmd cfg]) gathers"
    by (simp add: gatherContainerTemplate_def)
  moreover have "gatherCmd cfg = ''/usr/bin/timeout '' @ t @ '' '' @
              (case args ''gather_command'' of Some (VString g) \<Rightarrow> g | _ \<Rightarrow> defaultGatherCmd)"
    if "args ''timeout'' = Some (VString t)" for t
    using resolveArgs_gatherCmd_timeout[OF assms(1) that] by simp
  moreover have "gatherCmd cfg =
              (case args ''gather_command'' of Some (VString g) \<Rightarrow> g | _ \<Rightarrow> defaultGatherCmd)"
    if "args ''timeout'' = None"
    using resolveArgs_gatherCmd_no_timeout[OF assms(1) that] .
  ultimately show ?thesis by blast
qed

text \<open>A timeout of \<^verbatim>\<open>10m\<close> around a custom gather command.\<close>

theorem C10_witness:
  "resolveArgs sampleEnv
     (Map.empty(''timeout'' \<mapsto> VString ''10m'', ''gather_command'' \<mapsto> VString ''/usr/bin/gather_audit_logs'',
                ''namespace'' \<mapsto> VString ''default''))
     = Inr \<lparr>nodeName = [], nodeSelector = None, hostNetwork = False,
            sourceDir = ''/must-gather/'', namespace = ''default'', keepNamespace = False,
            gatherCmd = ''/usr/bin/timeout 10m /usr/bin/gather_audit_logs'', allImages = False,
            images = [], timeout = ''10m'', since = []\<rparr> \<and>
   gatherContainers \<lparr>nodeName = [], nodeSelector = None, hostNetwork = False,
            sourceDir = ''/must-gather/'', namespace = ''default'', keepNamespace = False,
            gatherCmd = ''/usr/bin/timeout 10m /usr/bin/gather_audit_logs'', allImages = False,
            images = [], timeout = ''10m'', since = []\<rparr>
     = Inr [\<lparr>containerName = ''gather'',
             Image = ''registry.redhat.io/openshift4/ose-must-gather:latest'',
             ImagePullPolicy = ''IfNotPresent'',
             Command = [''/usr/bin/timeout 10m /usr/bin/gather_audit_logs''], Env = [],
             VolumeMounts = [\<lparr>mountName = ''must-gather-collection'', MountPath = ''/must-gather/''\<rparr>]\<rparr>] \<and>
   list_all (\<lambda>c. Command c = [''/usr/bin/timeout 10m /usr/bin/gather_audit_logs''])
     [\<lparr>containerName = ''gather'',
             Image = ''registry.redhat.io/openshift4/ose-must-gather:latest'',
             ImagePullPolicy = ''IfNotPresent'',
             Command = [''/usr/bin/timeout 10m /usr/bin/gather_audit_logs''], Env = [],
             VolumeMounts = [\<lparr>mountName = ''must-gather-collection'', MountPath = ''/must-gather/''\<rparr>]\<rparr>]"
proof -
  have r: "resolveArgs sampleEnv
     (Map.empty(''timeout'' \<mapsto> VString ''10m'', ''gather_command'' \<mapsto> VString ''/usr/bin/gather_audit_logs'',
                ''namespace'' \<mapsto> VString ''default''))
     = Inr \<lparr>nodeName = [], nodeSelector = None, hostNetwork = False,
            sourceDir = ''/must-gather/'', namespace = ''default'', keepNamespace = False,
            gatherCmd = ''/usr/bin/timeout 10m /usr/bin/gather_audit_logs'', allImages = False,
            images = [], timeout = ''10m'', since = []\<rparr>"
    by (simp add: resolveArgs_def argString_def argBool_def argStrings_def sampleEnv_def
          defaultGatherSourceDir_def defaultGatherCmd_def)
  have g: "gatherContainers \<lparr>nodeName = [], nodeSelector = None, hostNetwork = False,
            sourceDir = ''/must-gather/'', namespace = ''default'', keepNamespace = False,
            gatherCmd = ''/usr/bin/timeout 10m /usr/bin/gather_audit_logs'', allImages = False,
            images = [], timeout = ''10m'', since = []\<rparr>
     = Inr [\<lparr>containerName = ''gather'',
             Image = ''registry.redhat.io/openshift4/ose-must-gather:latest'',
             ImagePullPolicy = ''IfNotPresent'',
             Command = [''/usr/bin/timeout 10m /usr/bin/gather_audit_logs''], Env = [],
             VolumeMounts = [\<lparr>mountName = ''must-gather-collection'', MountPath = ''/must-gather/''\<rparr>]\<rparr>]"
    by (simp add: gatherContainers_def gatherContainerTemplate_def envVars_def
          defaultMustGatherImage_def)
  from C10_command_is_one_element[OF r g] r g show ?thesis
    by simp
qed

end
